theory Spec2Isabelle
  imports Complex_Main
begin

section \<open>Python string helpers used by the task\<close>

text \<open>
  The task file \<^verbatim>\<open>summarization_from_pretrained_mbart_joint.py\<close> builds file names
  and split names with \<^verbatim>\<open>str\<close>, \<^verbatim>\<open>str.format\<close>, \<^verbatim>\<open>str.split\<close>,
  \<^verbatim>\<open>str.join\<close>, \<^verbatim>\<open>str.replace\<close>, the substring test \<^verbatim>\<open>in\<close> and
  \<^verbatim>\<open>os.path.join\<close>. These are Python built-ins; they are written out here on
  \<^typ>\<open>string\<close>.
\<close>

definition digit_char :: "nat \<Rightarrow> char" where
  "digit_char d = ''0123456789'' ! d"

text \<open>\<^verbatim>\<open>str(k)\<close> for a non-negative integer: its decimal digits.\<close>

function str_nat :: "nat \<Rightarrow> string" where
  "str_nat n = (if n < 10 then [digit_char n] else str_nat (n div 10) @ [digit_char (n mod 10)])"
  by pat_completeness auto
termination
  by (relation "measure id") auto

declare str_nat.simps [simp del]

text \<open>\<^verbatim>\<open>s.startswith(p)\<close>.\<close>

definition startswith :: "string \<Rightarrow> string \<Rightarrow> bool" where
  "startswith s p = (take (length p) s = p)"

text \<open>\<^verbatim>\<open>s.endswith(p)\<close>.\<close>

definition endswith :: "string \<Rightarrow> string \<Rightarrow> bool" where
  "endswith s p = (length p \<le> length s \<and> drop (length s - length p) s = p)"

text \<open>
  \<^verbatim>\<open>os.path.join(a, b)\<close> (posixpath, two components): an absolute \<open>b\<close> replaces
  \<open>a\<close>; an empty \<open>a\<close> or one ending in the separator is extended directly; otherwise
  the separator is inserted.
\<close>

definition os_path_join :: "string \<Rightarrow> string \<Rightarrow> string" where
  "os_path_join a b =
     (if startswith b ''/'' then b
      else if a = [] \<or> endswith a ''/'' then a @ b
      else a @ ''/'' @ b)"

text \<open>\<^verbatim>\<open>s.split(sep)\<close> for a one-character separator; the result is never empty.\<close>

fun str_split :: "string \<Rightarrow> char \<Rightarrow> string list" where
  "str_split [] sep = [[]]"
| "str_split (c # cs) sep =
     (if c = sep then [] # str_split cs sep
      else (case str_split cs sep of
              [] \<Rightarrow> [[c]]
            | w # ws \<Rightarrow> (c # w) # ws))"

text \<open>\<^verbatim>\<open>sep.join(xs)\<close>.\<close>

fun str_join :: "string \<Rightarrow> string list \<Rightarrow> string" where
  "str_join sep [] = []"
| "str_join sep [x] = x"
| "str_join sep (x # y # ys) = x @ sep @ str_join sep (y # ys)"

text \<open>\<^verbatim>\<open>sub in s\<close> on strings: \<open>sub\<close> occurs in \<open>s\<close> as a contiguous substring.\<close>

fun str_contains :: "string \<Rightarrow> string \<Rightarrow> bool" where
  "str_contains [] sub = (sub = [])"
| "str_contains (c # cs) sub = (startswith (c # cs) sub \<or> str_contains cs sub)"

text \<open>
  \<^verbatim>\<open>s.replace(old, new)\<close>: the non-overlapping occurrences of \<open>old\<close> are replaced
  from left to right. \<open>replace_scan\<close> is the scan for a non-empty \<open>old\<close> (after a
  match at \<open>c # cs\<close> it skips the \<open>length old - 1\<close> further characters of the
  match); for the empty pattern Python inserts \<open>new\<close> before every character and at
  the end.
\<close>

fun replace_scan :: "string \<Rightarrow> string \<Rightarrow> string \<Rightarrow> string" where
  "replace_scan [] old new = []"
| "replace_scan (c # cs) old new =
     (if startswith (c # cs) old then new @ replace_scan (drop (length old - 1) cs) old new
      else c # replace_scan cs old new)"

definition str_replace :: "string \<Rightarrow> string \<Rightarrow> string \<Rightarrow> string" where
  "str_replace s old new =
     (if old = [] then new @ concat (map (\<lambda>c. c # new) s)
      else replace_scan s old new)"

text \<open>\<^verbatim>\<open>'{}'.format(x)\<close> for an attribute that may be \<^verbatim>\<open>None\<close>.\<close>

definition format_opt :: "string option \<Rightarrow> string" where
  "format_opt x = (case x of None \<Rightarrow> ''None'' | Some s \<Rightarrow> s)"

text \<open>\<^verbatim>\<open>'[{}]'.format(lang)\<close>: the symbol of a language-id token.\<close>

definition lang_symbol :: "string \<Rightarrow> string" where
  "lang_symbol lang = ''['' @ lang @ '']''"

section \<open>Datasets of the host framework\<close>

text \<open>
  A token is an index into a dictionary; a sequence (a one-dimensional tensor of token
  ids) is a list of tokens. The task composes lazy dataset wrappers of the framework;
  they are kept as constructors, so that the task's functions build the same wrapper
  expression as the Python code, and \<open>items\<close> reads the sequences of such an
  expression.
\<close>

type_synonym token = nat
type_synonym tensor = "token list"

datatype dataset =
    IndexedDataset "tensor list"
  | AppendTokenDataset dataset token
  | PrependTokenDataset dataset token
  | StripTokenDataset dataset token
  | TruncateDataset dataset int
  | ConcatDataset "dataset list" "int list"

text \<open>
  Modelled from the spec: \<^verbatim>\<open>TruncateDataset.__getitem__\<close> of the framework
  (\<^verbatim>\<open>fairseq.data\<close>, not among the sources at hand). An item longer than the
  truncation length \<open>n\<close> is cut to \<^verbatim>\<open>item[:n]\<close>; that slice drops the last
  \<open>-n\<close> tokens when \<open>n\<close> is negative.
\<close>

definition truncate_item :: "int \<Rightarrow> tensor \<Rightarrow> tensor" where
  "truncate_item n item =
     (if int (length item) > n
      then (if n < 0 then take (nat (int (length item) + n)) item else take (nat n) item)
      else item)"

text \<open>
  Modelled from the spec: the item functions of the framework's wrappers
  (\<^verbatim>\<open>fairseq.data\<close>, not among the sources at hand), which the spec names
  ``token-prepend/append wrappers, concatenation/sampling wrappers'': appending puts the
  token after the sequence, prepending before it, and a concatenation with sample ratios
  lists every member dataset as many times as its ratio says. How
  \<^verbatim>\<open>StripTokenDataset\<close> removes a token is left open: it is the parameter
  \<open>strip\<close>.
\<close>

fun items :: "(token \<Rightarrow> tensor \<Rightarrow> tensor) \<Rightarrow> dataset \<Rightarrow> tensor list" where
  "items strip (IndexedDataset xs) = xs"
| "items strip (AppendTokenDataset d t) = map (\<lambda>item. item @ [t]) (items strip d)"
| "items strip (PrependTokenDataset d t) = map (\<lambda>item. [t] @ item) (items strip d)"
| "items strip (StripTokenDataset d t) = map (strip t) (items strip d)"
| "items strip (TruncateDataset d n) = map (truncate_item n) (items strip d)"
| "items strip (ConcatDataset ds ratios) =
     concat (map2 (\<lambda>xs r. concat (replicate (nat r) xs)) (map (items strip) ds) ratios)"

text \<open>\<^verbatim>\<open>len(dataset)\<close>: the number of examples.\<close>

fun len :: "dataset \<Rightarrow> nat" where
  "len (IndexedDataset xs) = length xs"
| "len (AppendTokenDataset d t) = len d"
| "len (PrependTokenDataset d t) = len d"
| "len (StripTokenDataset d t) = len d"
| "len (TruncateDataset d n) = len d"
| "len (ConcatDataset ds ratios) = sum_list (map2 (\<lambda>l r. nat r * l) (map len ds) ratios)"

text \<open>
  An array handed to the framework: explicit values, or the \<^verbatim>\<open>.sizes\<close> attribute
  of a dataset object.
\<close>

datatype 'd ndarray = Values "nat list" | SizesOf 'd

text \<open>
  A dictionary of the framework, as far as the task uses it: \<^verbatim>\<open>index(sym)\<close>,
  \<^verbatim>\<open>eos()\<close>, and \<^verbatim>\<open>bos()\<close> with the attribute \<^verbatim>\<open>bos_index\<close> that
  \<^verbatim>\<open>hasattr\<close> tests (\<open>None\<close>: the attribute is absent).
\<close>

record dictionary =
  dict_index :: "string \<Rightarrow> token"
  dict_eos :: token
  dict_bos_index :: "token option"

text \<open>The arguments with which the task constructs a \<^verbatim>\<open>LanguagePairDataset\<close>.\<close>

record langpair =
  lp_src :: dataset
  lp_src_sizes :: "dataset ndarray"
  lp_src_dict :: dictionary
  lp_tgt :: "dataset option"
  lp_tgt_sizes :: "dataset ndarray option"
  lp_tgt_dict :: "dictionary option"
  lp_left_pad_source :: bool
  lp_left_pad_target :: bool
  lp_max_source_positions :: int
  lp_max_target_positions :: int
  lp_align_dataset :: "dataset option"
  lp_eos :: "token option"

datatype error = FileNotFoundError | AssertionError | TypeError | IndexError

text \<open>
  Modelled from the spec: the store of indexed datasets on disk (``indexed binary
  corpora''; \<^verbatim>\<open>indexed_dataset.dataset_exists\<close> and
  \<^verbatim>\<open>data_utils.load_indexed_dataset\<close> are not among the sources at hand). For a
  dataset implementation and a path, the store holds the tokenized sequences of the
  corpus at that path, or nothing. A dataset exists iff the store holds one, and
  loading returns it, \<^verbatim>\<open>None\<close> otherwise.
\<close>

type_synonym impl = "string option"
type_synonym store = "impl \<Rightarrow> string \<Rightarrow> tensor list option"

definition dataset_exists :: "store \<Rightarrow> string \<Rightarrow> impl \<Rightarrow> bool" where
  "dataset_exists fs filename dataset_impl = (fs dataset_impl filename \<noteq> None)"

definition load_indexed_dataset :: "store \<Rightarrow> string \<Rightarrow> impl \<Rightarrow> dataset option" where
  "load_indexed_dataset fs path dataset_impl = map_option IndexedDataset (fs dataset_impl path)"

section \<open>Loading the corpus of one language: \<^verbatim>\<open>load_langpair_sumdataset\<close>\<close>

text \<open>The nested helper \<^verbatim>\<open>split_exists\<close> (it closes over \<^verbatim>\<open>dataset_impl\<close>).\<close>

definition split_exists ::
  "store \<Rightarrow> impl \<Rightarrow> string \<Rightarrow> string \<Rightarrow> string \<Rightarrow> string \<Rightarrow> string \<Rightarrow> bool" where
  "split_exists fs dataset_impl split src tgt lang data_path =
     (let filename = os_path_join data_path (split @ ''.'' @ src @ ''-'' @ tgt @ ''.'' @ lang)
      in dataset_exists fs filename dataset_impl)"

text \<open>
  The block ``infer langcode'' of the loop (lines 57 to 65): the prefix of the shard
  \<open>split_k\<close> under the naming direction that exists, the first direction being
  tried first; \<open>None\<close> when neither exists.
\<close>

definition shard_prefix ::
  "store \<Rightarrow> impl \<Rightarrow> string \<Rightarrow> string \<Rightarrow> string \<Rightarrow> string \<Rightarrow> string option" where
  "shard_prefix fs dataset_impl data_path split_k src tgt =
     (if split_exists fs dataset_impl split_k src tgt src data_path
      then Some (os_path_join data_path (split_k @ ''.'' @ src @ ''-'' @ tgt @ ''.''))
      else if split_exists fs dataset_impl split_k tgt src src data_path
      then Some (os_path_join data_path (split_k @ ''.'' @ tgt @ ''-'' @ src @ ''.''))
      else None)"

text \<open>The name of the \<open>k\<close>-th shard: \<^verbatim>\<open>split + (str(k) if k > 0 else '')\<close>.\<close>

definition shard_name :: "string \<Rightarrow> nat \<Rightarrow> string" where
  "shard_name split k = split @ (if k > 0 then str_nat k else [])"

text \<open>
  The loop \<^verbatim>\<open>for k in itertools.count()\<close> over the shards \<open>split\<close>,
  \<open>split1\<close>, \<open>split2\<close>, ... It has no bound of its own, so it is a partial
  function: \<open>None\<close> is a loop that never leaves. The two accumulators are the lists
  \<^verbatim>\<open>src_datasets\<close> and \<^verbatim>\<open>tgt_datasets\<close>. A source dataset that failed to load
  would be \<^verbatim>\<open>None\<close>, on which \<^verbatim>\<open>len\<close> in the logging call raises a
  \<^verbatim>\<open>TypeError\<close>.
\<close>

partial_function (option) load_shards ::
  "store \<Rightarrow> impl \<Rightarrow> string \<Rightarrow> string \<Rightarrow> string \<Rightarrow> string \<Rightarrow> bool \<Rightarrow> nat \<Rightarrow>
   dataset list \<Rightarrow> dataset list \<Rightarrow> (error + dataset list \<times> dataset list) option" where
  "load_shards fs dataset_impl data_path split src tgt combine k src_datasets tgt_datasets =
     (let split_k = shard_name split k
      in case shard_prefix fs dataset_impl data_path split_k src tgt of
           None \<Rightarrow>
             (if k > 0 then Some (Inr (src_datasets, tgt_datasets))
              else Some (Inl FileNotFoundError))
         | Some prefix \<Rightarrow>
             (case load_indexed_dataset fs (prefix @ src) dataset_impl of
                None \<Rightarrow> Some (Inl TypeError)
              | Some src_dataset \<Rightarrow>
                  (let src_datasets = src_datasets @ [src_dataset];
                       tgt_datasets =
                         (case load_indexed_dataset fs (prefix @ tgt) dataset_impl of
                            None \<Rightarrow> tgt_datasets
                          | Some tgt_dataset \<Rightarrow> tgt_datasets @ [tgt_dataset])
                   in if \<not> combine then Some (Inr (src_datasets, tgt_datasets))
                      else load_shards fs dataset_impl data_path split src tgt combine (k + 1)
                             src_datasets tgt_datasets)))"

text \<open>
  What one pass of the loop loads for the shard \<open>k\<close>, when the shard exists: the
  source dataset and, if there is one, the target dataset.
\<close>

definition shard_datasets ::
  "store \<Rightarrow> impl \<Rightarrow> string \<Rightarrow> string \<Rightarrow> string \<Rightarrow> string \<Rightarrow> nat \<Rightarrow> (dataset \<times> dataset option) option" where
  "shard_datasets fs dataset_impl data_path split src tgt k =
     (case shard_prefix fs dataset_impl data_path (shard_name split k) src tgt of
        None \<Rightarrow> None
      | Some prefix \<Rightarrow>
          (case load_indexed_dataset fs (prefix @ src) dataset_impl of
             None \<Rightarrow> None
           | Some src_dataset \<Rightarrow>
               Some (src_dataset, load_indexed_dataset fs (prefix @ tgt) dataset_impl)))"

text \<open>
  Lines 81 to 110: the assertion on the two lists, the single dataset or the
  concatenation with \<^verbatim>\<open>sample_ratios\<close>, the optional beginning-of-sentence token and
  the optional truncation of the source. The result is the pair
  \<^verbatim>\<open>(src_dataset, tgt_dataset)\<close> as it stands before the language-id tokens are
  added. Writing \<^verbatim>\<open>sample_ratios[0]\<close> on an empty list would raise an
  \<^verbatim>\<open>IndexError\<close>.
\<close>

definition prepare_datasets ::
  "dataset list \<Rightarrow> dataset list \<Rightarrow> dictionary \<Rightarrow> dictionary \<Rightarrow> int \<Rightarrow> int \<Rightarrow> bool \<Rightarrow> bool \<Rightarrow>
   bool \<Rightarrow> error + dataset \<times> dataset option" where
  "prepare_datasets src_datasets tgt_datasets src_dict tgt_dict upsample_primary
       max_source_positions prepend_bos truncate_source append_source_id =
     (if \<not> (length src_datasets = length tgt_datasets \<or> length tgt_datasets = 0)
      then Inl AssertionError
      else if src_datasets = [] then Inl IndexError
      else
        let (src_dataset, tgt_dataset) =
              (if length src_datasets = 1
               then (src_datasets ! 0,
                     if length tgt_datasets > 0 then Some (tgt_datasets ! 0) else None)
               else
                 let sample_ratios = (replicate (length src_datasets) 1)[0 := upsample_primary]
                 in (ConcatDataset src_datasets sample_ratios,
                     if length tgt_datasets > 0
                     then Some (ConcatDataset tgt_datasets sample_ratios) else None))
        in if prepend_bos \<and> (dict_bos_index src_dict = None \<or> dict_bos_index tgt_dict = None)
           then Inl AssertionError
           else
             let (src_dataset, tgt_dataset) =
                   (if prepend_bos
                    then (PrependTokenDataset src_dataset (the (dict_bos_index src_dict)),
                          map_option (\<lambda>t. PrependTokenDataset t (the (dict_bos_index tgt_dict)))
                            tgt_dataset)
                    else (src_dataset, tgt_dataset));
                 src_dataset =
                   (if truncate_source
                    then
                      let trunc_len = (if append_source_id then max_source_positions - 1
                                       else max_source_positions)
                      in AppendTokenDataset
                           (TruncateDataset
                              (StripTokenDataset src_dataset (dict_eos src_dict))
                              (trunc_len - 1))
                           (dict_eos src_dict)
                    else src_dataset)
             in Inr (src_dataset, tgt_dataset))"

text \<open>
  Lines 50 to 110 together: the loop over the shards, started at \<open>k = 0\<close> with empty
  lists, followed by the preparation of the two datasets.
\<close>

definition load_base_datasets ::
  "store \<Rightarrow> string \<Rightarrow> string \<Rightarrow> string \<Rightarrow> dictionary \<Rightarrow> string \<Rightarrow> dictionary \<Rightarrow> bool \<Rightarrow> impl \<Rightarrow>
   int \<Rightarrow> int \<Rightarrow> bool \<Rightarrow> bool \<Rightarrow> bool \<Rightarrow> (error + dataset \<times> dataset option) option" where
  "load_base_datasets fs data_path split src src_dict tgt tgt_dict combine dataset_impl
       upsample_primary max_source_positions prepend_bos truncate_source append_source_id =
     (case load_shards fs dataset_impl data_path split src tgt combine 0 [] [] of
        None \<Rightarrow> None
      | Some (Inl e) \<Rightarrow> Some (Inl e)
      | Some (Inr (src_datasets, tgt_datasets)) \<Rightarrow>
          Some (prepare_datasets src_datasets tgt_datasets src_dict tgt_dict upsample_primary
                  max_source_positions prepend_bos truncate_source append_source_id))"

text \<open>
  The whole function, with the parameters in the order of the Python signature (the
  store of corpora comes first). Lines 112 to 137 add the language-id tokens, look for
  the alignment dataset and construct the \<^verbatim>\<open>LanguagePairDataset\<close>.
\<close>

definition load_langpair_sumdataset ::
  "store \<Rightarrow> string \<Rightarrow> string \<Rightarrow> string \<Rightarrow> dictionary \<Rightarrow> string \<Rightarrow> string \<Rightarrow> dictionary \<Rightarrow> string \<Rightarrow>
   bool \<Rightarrow> impl \<Rightarrow> int \<Rightarrow> bool \<Rightarrow> bool \<Rightarrow> int \<Rightarrow> int \<Rightarrow> bool \<Rightarrow> bool \<Rightarrow> bool \<Rightarrow> bool \<Rightarrow> bool \<Rightarrow>
   (error + langpair) option" where
  "load_langpair_sumdataset fs data_path split src src_dict src_lang tgt tgt_dict tgt_lang
       combine dataset_impl upsample_primary left_pad_source left_pad_target
       max_source_positions max_target_positions prepend_bos load_alignments
       truncate_source append_source_id trg_prepend =
     (case load_base_datasets fs data_path split src src_dict tgt tgt_dict combine dataset_impl
             upsample_primary max_source_positions prepend_bos truncate_source
             append_source_id of
        None \<Rightarrow> None
      | Some (Inl e) \<Rightarrow> Some (Inl e)
      | Some (Inr (src_dataset, tgt_dataset)) \<Rightarrow>
          (let (src_dataset, tgt_dataset, eos) =
                 (if append_source_id
                  then
                    (AppendTokenDataset src_dataset
                       (dict_index src_dict (lang_symbol src_lang)),
                     map_option
                       (\<lambda>t. AppendTokenDataset
                              (if trg_prepend
                               then PrependTokenDataset t
                                      (dict_index tgt_dict (lang_symbol tgt_lang))
                               else t)
                              (dict_index tgt_dict (lang_symbol tgt_lang)))
                       tgt_dataset,
                     Some (dict_index tgt_dict (lang_symbol tgt_lang)))
                  else (src_dataset, tgt_dataset, None));
               align_path = os_path_join data_path
                              (split @ ''.align.'' @ src @ ''-'' @ tgt);
               align_dataset =
                 (if load_alignments \<and> dataset_exists fs align_path dataset_impl
                  then load_indexed_dataset fs align_path dataset_impl
                  else None)
           in Some (Inr
                \<lparr> lp_src = src_dataset,
                  lp_src_sizes = SizesOf src_dataset,
                  lp_src_dict = src_dict,
                  lp_tgt = tgt_dataset,
                  lp_tgt_sizes = map_option SizesOf tgt_dataset,
                  lp_tgt_dict = Some tgt_dict,
                  lp_left_pad_source = left_pad_source,
                  lp_left_pad_target = left_pad_target,
                  lp_max_source_positions = max_source_positions,
                  lp_max_target_positions = max_target_positions,
                  lp_align_dataset = align_dataset,
                  lp_eos = eos \<rparr>)))"

text \<open>
  The tokens that the \<^verbatim>\<open>PrependTokenDataset\<close> wrappers of a dataset expression put
  in front of its sequences, outermost first.
\<close>

fun prepended_tokens :: "dataset \<Rightarrow> token list" where
  "prepended_tokens (IndexedDataset xs) = []"
| "prepended_tokens (AppendTokenDataset d t) = prepended_tokens d"
| "prepended_tokens (PrependTokenDataset d t) = t # prepended_tokens d"
| "prepended_tokens (StripTokenDataset d t) = prepended_tokens d"
| "prepended_tokens (TruncateDataset d n) = prepended_tokens d"
| "prepended_tokens (ConcatDataset ds ratios) = concat (map prepended_tokens ds)"

section \<open>The task \<^verbatim>\<open>SummarizationFromPretrainedMBARTTaskJoint\<close>\<close>

text \<open>
  The dataset objects a task registers: a language-pair dataset, the concatenation of
  language-pair datasets (the framework's \<^verbatim>\<open>ConcatDataset\<close> with its default
  sample ratios), and a \<^verbatim>\<open>SortDataset\<close> over a dataset with its
  \<^verbatim>\<open>sort_order\<close> arrays.
\<close>

datatype fairseq_dataset =
    LanguagePairDataset langpair
  | ConcatDatasets "langpair list"
  | SortDataset fairseq_dataset "fairseq_dataset ndarray list"

text \<open>
  Modelled from the spec: \<^verbatim>\<open>__len__\<close> of the framework's dataset classes (not
  among the sources at hand). A language-pair dataset has as many examples as its
  source side, a concatenation (``concatenate them into a single training stream'') as
  many as its members together, and a sorted view as many as the dataset it sorts.
\<close>

fun num_examples :: "fairseq_dataset \<Rightarrow> nat" where
  "num_examples (LanguagePairDataset d) = len (lp_src d)"
| "num_examples (ConcatDatasets ds) = sum_list (map (\<lambda>d. len (lp_src d)) ds)"
| "num_examples (SortDataset d sort_order) = num_examples d"

text \<open>
  The argument namespace, as far as the task reads it. An attribute read with
  \<^verbatim>\<open>getattr(args, name, dflt)\<close> may be absent and is an option; the namespace
  can hold \<^verbatim>\<open>prepend_bos\<close> and \<^verbatim>\<open>preprend_bos\<close> side by side.
\<close>

record args =
  args_data :: string
  args_source_lang :: string
  args_target_lang :: string
  args_doc_lang :: "string option"
  args_sum_lang :: "string option"
  args_langs_for_sum :: string
  args_fix2x :: string
  args_trg_prepend :: "bool option"
  args_dataset_impl :: impl
  args_upsample_primary :: int
  args_left_pad_source :: bool
  args_left_pad_target :: bool
  args_max_source_positions :: "int option"
  args_max_target_positions :: "int option"
  args_truncate_source :: bool
  args_load_alignments :: bool
  args_prepend_bos :: "bool option"
  args_preprend_bos :: "bool option"
  args_valid_subset :: string
  args_seed :: int

definition getattr :: "'a option \<Rightarrow> 'a \<Rightarrow> 'a" where
  "getattr attr dflt = (case attr of None \<Rightarrow> dflt | Some v \<Rightarrow> v)"

record task =
  task_args :: args
  task_src_dict :: dictionary
  task_tgt_dict :: dictionary
  task_langs_for_summ :: "string list"
  task_datasets :: "string \<Rightarrow> fairseq_dataset option"

text \<open>
  \<^verbatim>\<open>__init__\<close>: the parent class stores the arguments and the dictionaries (and
  starts with no dataset); this class splits \<^verbatim>\<open>--langs-for-sum\<close> at the commas.
\<close>

definition init :: "args \<Rightarrow> dictionary \<Rightarrow> dictionary \<Rightarrow> task" where
  "init a src_dict tgt_dict =
     \<lparr> task_args = a, task_src_dict = src_dict, task_tgt_dict = tgt_dict,
       task_langs_for_summ = str_split (args_langs_for_sum a) (CHR '',''),
       task_datasets = Map.empty \<rparr>"

text \<open>
  The body of the loop \<^verbatim>\<open>for lang in languages\<close> of \<^verbatim>\<open>load_dataset\<close> (lines
  198 to 219): the call of \<^verbatim>\<open>load_langpair_sumdataset\<close> for one language.
\<close>

definition load_lang_dataset ::
  "store \<Rightarrow> task \<Rightarrow> string \<Rightarrow> string \<Rightarrow> string \<Rightarrow> string \<Rightarrow> bool \<Rightarrow> string \<Rightarrow>
   (error + langpair) option" where
  "load_lang_dataset fs self data_path split src tgt combine lang =
     (let code = str_split lang (CHR ''_'') ! 0;
          lang_path = os_path_join data_path code;
          srclang = (if args_fix2x (task_args self) \<noteq> [] then args_fix2x (task_args self)
                     else lang)
      in load_langpair_sumdataset fs lang_path split
           src (task_src_dict self) srclang
           tgt (task_tgt_dict self) lang
           combine (args_dataset_impl (task_args self))
           (args_upsample_primary (task_args self))
           (args_left_pad_source (task_args self))
           (args_left_pad_target (task_args self))
           (getattr (args_max_source_positions (task_args self)) 1024)
           (getattr (args_max_target_positions (task_args self)) 1024)
           (getattr (args_preprend_bos (task_args self)) False)
           (args_load_alignments (task_args self))
           (args_truncate_source (task_args self))
           True
           (getattr (args_trg_prepend (task_args self)) False))"

text \<open>The loop itself: the datasets are collected in the order of the languages.\<close>

fun load_lang_datasets ::
  "store \<Rightarrow> task \<Rightarrow> string \<Rightarrow> string \<Rightarrow> string \<Rightarrow> string \<Rightarrow> bool \<Rightarrow> string list \<Rightarrow>
   (error + langpair list) option" where
  "load_lang_datasets fs self data_path split src tgt combine [] = Some (Inr [])"
| "load_lang_datasets fs self data_path split src tgt combine (lang # languages) =
     (case load_lang_dataset fs self data_path split src tgt combine lang of
        None \<Rightarrow> None
      | Some (Inl e) \<Rightarrow> Some (Inl e)
      | Some (Inr lang_dataset) \<Rightarrow>
          (case load_lang_datasets fs self data_path split src tgt combine languages of
             None \<Rightarrow> None
           | Some (Inl e) \<Rightarrow> Some (Inl e)
           | Some (Inr lang_datasets) \<Rightarrow> Some (Inr (lang_dataset # lang_datasets))))"

text \<open>
  The loop \<^verbatim>\<open>for lang_id, lang_dataset in enumerate(lang_datasets)\<close> (lines 235 to
  238): its state is the list \<^verbatim>\<open>lang_splits\<close> and the registry
  \<^verbatim>\<open>self.datasets\<close>.
\<close>

definition register_step ::
  "string \<Rightarrow> string list \<Rightarrow> nat \<times> langpair \<Rightarrow>
   string list \<times> (string \<Rightarrow> fairseq_dataset option) \<Rightarrow>
   string list \<times> (string \<Rightarrow> fairseq_dataset option)" where
  "register_step split languages = (\<lambda>(lang_id, lang_dataset) (lang_splits, datasets).
     (let split_name = split @ ''_'' @ languages ! lang_id
      in (lang_splits @ [split_name],
          datasets(split_name \<mapsto> LanguagePairDataset lang_dataset))))"

text \<open>
  \<^verbatim>\<open>load_dataset(split, epoch, combine)\<close>. The seeded
  \<^verbatim>\<open>np.random.permutation\<close> is the parameter \<open>permutation\<close>, from a seed and a
  length to an index array. The two assignments to \<^verbatim>\<open>self.datasets[split]\<close> (lines
  248 and 256) are two updates of the registry, in that order. The constructor of the
  concatenation asserts that it is given at least one dataset, and the final
  \<^verbatim>\<open>print(self.datasets[split][0])\<close> raises an \<^verbatim>\<open>IndexError\<close> on a
  concatenation without examples. A call that raises yields the error alone; a call
  that returns yields the task with its updated arguments and registry.
\<close>

definition load_dataset ::
  "store \<Rightarrow> (int \<Rightarrow> nat \<Rightarrow> nat list) \<Rightarrow> task \<Rightarrow> string \<Rightarrow> int \<Rightarrow> bool \<Rightarrow> (error + task) option" where
  "load_dataset fs permutation self split epoch combine =
     (let paths = str_split (args_data (task_args self)) (CHR '':'')
      in if \<not> length paths > 0 then Some (Inl AssertionError)
         else
           let data_path = paths ! nat ((epoch - 1) mod int (length paths));
               src = args_source_lang (task_args self);
               tgt = args_target_lang (task_args self);
               languages = task_langs_for_summ self
           in case load_lang_datasets fs self data_path split src tgt combine languages of
                None \<Rightarrow> None
              | Some (Inl e) \<Rightarrow> Some (Inl e)
              | Some (Inr lang_datasets) \<Rightarrow>
                  (if lang_datasets = [] then Some (Inl AssertionError)
                   else
                     let dataset = ConcatDatasets lang_datasets;
                         (lang_splits, datasets) =
                           fold (register_step split languages)
                             (List.enumerate 0 lang_datasets)
                             ([split], task_datasets self);
                         valid_subset =
                           (if str_contains (args_valid_subset (task_args self)) split
                            then str_replace (args_valid_subset (task_args self)) split
                                   (str_join '','' lang_splits)
                            else args_valid_subset (task_args self));
                         shuffle = permutation (args_seed (task_args self) + epoch)
                                     (num_examples dataset);
                         datasets = datasets(split \<mapsto>
                                      SortDataset dataset [Values shuffle, SizesOf dataset]);
                         datasets = datasets(split \<mapsto> dataset)
                     in if num_examples dataset = 0 then Some (Inl IndexError)
                        else Some (Inr (self\<lparr> task_args :=
                                               (task_args self)\<lparr> args_valid_subset := valid_subset \<rparr>,
                                             task_datasets := datasets \<rparr>))))"

text \<open>
  \<^verbatim>\<open>build_dataset_for_inference(src_tokens, src_lengths)\<close>: the loop appends to
  \<^verbatim>\<open>source_tokens\<close> each input extended by \<^verbatim>\<open>torch.cat\<close> with the one-element
  tensor holding \<^verbatim>\<open>src_lang_id\<close>. The \<^verbatim>\<open>LanguagePairDataset\<close> gets the three
  positional arguments; the other fields are the constructor's defaults.
\<close>

definition build_dataset_for_inference :: "task \<Rightarrow> tensor list \<Rightarrow> nat list \<Rightarrow> langpair" where
  "build_dataset_for_inference self src_tokens src_lengths =
     (let src_lang_id = dict_index (task_src_dict self)
                          (lang_symbol (format_opt (args_doc_lang (task_args self))));
          source_tokens = fold (\<lambda>s_t source_tokens. source_tokens @ [s_t @ [src_lang_id]])
                            src_tokens []
      in \<lparr> lp_src = IndexedDataset source_tokens,
           lp_src_sizes = Values src_lengths,
           lp_src_dict = task_src_dict self,
           lp_tgt = None,
           lp_tgt_sizes = None,
           lp_tgt_dict = None,
           lp_left_pad_source = True,
           lp_left_pad_target = False,
           lp_max_source_positions = 1024,
           lp_max_target_positions = 1024,
           lp_align_dataset = None,
           lp_eos = None \<rparr>)"

text \<open>
  \<^verbatim>\<open>_get_sample_prob(dataset_lens)\<close> on a vector of lengths. The numpy array of
  floats is taken as a list of real numbers, with exact arithmetic: rounding is outside
  this model.
\<close>

definition get_sample_prob :: "real list \<Rightarrow> real list" where
  "get_sample_prob dataset_lens =
     (let prob = map (\<lambda>x. x / sum_list dataset_lens) dataset_lens;
          smoothed_prob = map (\<lambda>p. p powr 1.0) prob;
          smoothed_prob = map (\<lambda>p. p / sum_list smoothed_prob) smoothed_prob
      in smoothed_prob)"

section \<open>A small corpus\<close>

text \<open>
  A store with an English corpus in two shards of the split \<open>train\<close> (the second
  without a target side) and a Chinese corpus in one; a dictionary with the two
  language-id symbols; an argument namespace that defines \<^verbatim>\<open>prepend_bos\<close> and not
  \<^verbatim>\<open>preprend_bos\<close>.
\<close>

definition example_store :: store where
  "example_store = (\<lambda>dataset_impl path.
     if path = ''data/en/train.doc-sum.doc'' then Some [[4, 5, 6, 2], [8, 2]]
     else if path = ''data/en/train.doc-sum.sum'' then Some [[9, 2], [10, 2]]
     else if path = ''data/en/train1.doc-sum.doc'' then Some [[11, 2]]
     else if path = ''data/zh/train.doc-sum.doc'' then Some [[12, 13, 2]]
     else if path = ''data/zh/train.doc-sum.sum'' then Some [[14, 2]]
     else None)"

definition example_dict :: dictionary where
  "example_dict =
     \<lparr> dict_index = (\<lambda>symbol. if symbol = ''[en_XX]'' then 7
                                else if symbol = ''[zh_CN]'' then 8 else 3),
       dict_eos = 2, dict_bos_index = Some 0 \<rparr>"

definition example_args :: args where
  "example_args =
     \<lparr> args_data = ''data'', args_source_lang = ''doc'', args_target_lang = ''sum'',
       args_doc_lang = Some ''en_XX'', args_sum_lang = Some ''en_XX'',
       args_langs_for_sum = ''en_XX,zh_CN'', args_fix2x = [], args_trg_prepend = Some False,
       args_dataset_impl = None, args_upsample_primary = 1, args_left_pad_source = True,
       args_left_pad_target = False, args_max_source_positions = None,
       args_max_target_positions = None, args_truncate_source = False,
       args_load_alignments = False, args_prepend_bos = Some True, args_preprend_bos = None,
       args_valid_subset = ''valid,train'', args_seed = 1 \<rparr>"

definition example_task :: task where
  "example_task = init example_args example_dict example_dict"

definition example_permutation :: "int \<Rightarrow> nat \<Rightarrow> nat list" where
  "example_permutation seed n = rev [0..<n]"

text \<open>
  The two per-language datasets that \<^verbatim>\<open>load_dataset('train', epoch=1)\<close> builds
  from this corpus, and the task after the call.
\<close>

definition example_en :: langpair where
  "example_en =
     \<lparr> lp_src = AppendTokenDataset (IndexedDataset [[4, 5, 6, 2], [8, 2]]) 7,
       lp_src_sizes = SizesOf (AppendTokenDataset (IndexedDataset [[4, 5, 6, 2], [8, 2]]) 7),
       lp_src_dict = example_dict,
       lp_tgt = Some (AppendTokenDataset (IndexedDataset [[9, 2], [10, 2]]) 7),
       lp_tgt_sizes = Some (SizesOf (AppendTokenDataset (IndexedDataset [[9, 2], [10, 2]]) 7)),
       lp_tgt_dict = Some example_dict,
       lp_left_pad_source = True, lp_left_pad_target = False,
       lp_max_source_positions = 1024, lp_max_target_positions = 1024,
       lp_align_dataset = None, lp_eos = Some 7 \<rparr>"

definition example_zh :: langpair where
  "example_zh =
     \<lparr> lp_src = AppendTokenDataset (IndexedDataset [[12, 13, 2]]) 8,
       lp_src_sizes = SizesOf (AppendTokenDataset (IndexedDataset [[12, 13, 2]]) 8),
       lp_src_dict = example_dict,
       lp_tgt = Some (AppendTokenDataset (IndexedDataset [[14, 2]]) 8),
       lp_tgt_sizes = Some (SizesOf (AppendTokenDataset (IndexedDataset [[14, 2]]) 8)),
       lp_tgt_dict = Some example_dict,
       lp_left_pad_source = True, lp_left_pad_target = False,
       lp_max_source_positions = 1024, lp_max_target_positions = 1024,
       lp_align_dataset = None, lp_eos = Some 8 \<rparr>"

definition example_loaded :: task where
  "example_loaded =
     example_task
       \<lparr> task_args := example_args \<lparr> args_valid_subset := ''valid,train,train_en_XX,train_zh_CN'' \<rparr>,
         task_datasets :=
           [''train_en_XX'' \<mapsto> LanguagePairDataset example_en,
            ''train_zh_CN'' \<mapsto> LanguagePairDataset example_zh,
            ''train'' \<mapsto> ConcatDatasets [example_en, example_zh]] \<rparr>"

section \<open>Properties of the string helpers and the wrappers\<close>

lemma str_split_nonempty: "str_split s sep \<noteq> []"
  by (induction s) (auto split: list.splits)

lemma str_split_first: "str_split s sep ! 0 = takeWhile (\<lambda>c. c \<noteq> sep) s"
proof (induction s)
  case Nil
  then show ?case by simp
next
  case (Cons c cs)
  then show ?case
    using str_split_nonempty [of cs sep] by (auto split: list.splits)
qed

lemma startswith_append: "b \<noteq> [] \<Longrightarrow> startswith (b @ c) [x] = startswith b [x]"
  by (cases b) (simp_all add: startswith_def)

lemma os_path_join_append: "b \<noteq> [] \<Longrightarrow> os_path_join a (b @ c) = os_path_join a b @ c"
  by (simp add: os_path_join_def startswith_append)

lemma fold_append_map: "fold (\<lambda>x acc. acc @ [f x]) xs ys = ys @ map f xs"
  by (induction xs arbitrary: ys) simp_all

lemma example_dict_simps:
  "dict_index example_dict symbol =
     (if symbol = ''[en_XX]'' then 7 else if symbol = ''[zh_CN]'' then 8 else 3)"
  "dict_eos example_dict = 2"
  "dict_bos_index example_dict = Some 0"
  by (simp_all add: example_dict_def)

section \<open>The loop over the shards\<close>

lemma shard_prefix_loads:
  assumes "shard_prefix fs dataset_impl data_path split_k src tgt = Some p"
  shows "load_indexed_dataset fs (p @ src) dataset_impl \<noteq> None"
proof -
  have j1: "os_path_join data_path (split_k @ ''.'' @ src @ ''-'' @ tgt @ ''.'' @ src)
            = os_path_join data_path (split_k @ ''.'' @ src @ ''-'' @ tgt @ ''.'') @ src"
    using os_path_join_append [of "split_k @ ''.'' @ src @ ''-'' @ tgt @ ''.''" data_path src]
    by simp
  have j2: "os_path_join data_path (split_k @ ''.'' @ tgt @ ''-'' @ src @ ''.'' @ src)
            = os_path_join data_path (split_k @ ''.'' @ tgt @ ''-'' @ src @ ''.'') @ src"
    using os_path_join_append [of "split_k @ ''.'' @ tgt @ ''-'' @ src @ ''.''" data_path src]
    by simp
  show ?thesis
    using assms j1 j2
    by (auto simp: shard_prefix_def split_exists_def dataset_exists_def load_indexed_dataset_def
          Let_def split: if_splits)
qed

lemma shard_datasets_None_iff:
  "shard_datasets fs dataset_impl data_path split src tgt k = None \<longleftrightarrow>
   shard_prefix fs dataset_impl data_path (shard_name split k) src tgt = None"
  using shard_prefix_loads [of fs dataset_impl data_path "shard_name split k" src tgt]
  by (auto simp: shard_datasets_def split: option.splits)

lemma shard_prefix_None_iff:
  "shard_prefix fs dataset_impl data_path split_k src tgt = None \<longleftrightarrow>
   \<not> split_exists fs dataset_impl split_k src tgt src data_path \<and>
   \<not> split_exists fs dataset_impl split_k tgt src src data_path"
  by (simp add: shard_prefix_def)

lemma load_shards_step:
  assumes "shard_datasets fs dataset_impl data_path split src tgt k = Some (s, t)"
  shows "load_shards fs dataset_impl data_path split src tgt combine k src_datasets tgt_datasets =
     (if \<not> combine
      then Some (Inr (src_datasets @ [s],
                      (case t of None \<Rightarrow> tgt_datasets | Some d \<Rightarrow> tgt_datasets @ [d])))
      else load_shards fs dataset_impl data_path split src tgt combine (k + 1)
             (src_datasets @ [s])
             (case t of None \<Rightarrow> tgt_datasets | Some d \<Rightarrow> tgt_datasets @ [d]))"
  using assms
  by (subst load_shards.simps)
     (auto simp: shard_datasets_def Let_def split: option.splits)

lemma load_shards_stop:
  assumes "shard_datasets fs dataset_impl data_path split src tgt k = None"
  shows "load_shards fs dataset_impl data_path split src tgt combine k src_datasets tgt_datasets =
     (if k > 0 then Some (Inr (src_datasets, tgt_datasets)) else Some (Inl FileNotFoundError))"
  using assms unfolding shard_datasets_None_iff
  by (subst load_shards.simps) (simp add: Let_def)

lemma load_shards_not_FileNotFoundError:
  assumes run: "load_shards fs dataset_impl data_path split src tgt combine k src_datasets
                  tgt_datasets = Some y"
  shows "0 < k \<longrightarrow> y \<noteq> Inl FileNotFoundError"
  by (rule load_shards.raw_induct
        [where P = "\<lambda>fs dataset_impl data_path split src tgt combine k src_datasets tgt_datasets y.
                      0 < k \<longrightarrow> y \<noteq> Inl FileNotFoundError", OF _ run])
     (auto simp: Let_def split: option.splits if_splits)

lemma load_shards_run:
  assumes "combine"
    and "\<forall>j. k \<le> j \<and> j < n \<longrightarrow> shard_datasets fs dataset_impl data_path split src tgt j \<noteq> None"
    and "shard_datasets fs dataset_impl data_path split src tgt n = None"
    and "k \<le> n" and "0 < n"
  shows "load_shards fs dataset_impl data_path split src tgt combine k src_datasets tgt_datasets =
     Some (Inr (src_datasets @ List.map_filter
                  (\<lambda>j. map_option fst (shard_datasets fs dataset_impl data_path split src tgt j))
                  [k..<n],
                tgt_datasets @ List.map_filter
                  (\<lambda>j. Option.bind (shard_datasets fs dataset_impl data_path split src tgt j) snd)
                  [k..<n]))"
  using assms
proof (induction "n - k" arbitrary: k src_datasets tgt_datasets)
  case 0
  then have "k = n" by simp
  with 0 show ?case
    by (simp add: load_shards_stop List.map_filter_simps)
next
  case (Suc d)
  then have kn: "k < n" by simp
  with Suc.prems obtain s t where
    st: "shard_datasets fs dataset_impl data_path split src tgt k = Some (s, t)"
    by (cases "shard_datasets fs dataset_impl data_path split src tgt k") auto
  have d: "d = n - (k + 1)" using Suc.hyps(2) by simp
  have IH: "load_shards fs dataset_impl data_path split src tgt combine (k + 1)
             (src_datasets @ [s]) (case t of None \<Rightarrow> tgt_datasets | Some d \<Rightarrow> tgt_datasets @ [d]) =
     Some (Inr ((src_datasets @ [s]) @ List.map_filter
                  (\<lambda>j. map_option fst (shard_datasets fs dataset_impl data_path split src tgt j))
                  [k + 1..<n],
                (case t of None \<Rightarrow> tgt_datasets | Some d \<Rightarrow> tgt_datasets @ [d]) @ List.map_filter
                  (\<lambda>j. Option.bind (shard_datasets fs dataset_impl data_path split src tgt j) snd)
                  [k + 1..<n]))"
    using Suc.prems kn by (intro Suc.hyps(1) [OF d]) auto
  have upt: "[k..<n] = k # [k + 1..<n]" using kn by (simp add: upt_conv_Cons)
  show ?case
    unfolding load_shards_step [OF st] upt using \<open>combine\<close> IH st
    by (cases t) (simp_all add: List.map_filter_simps)
qed

lemma prepare_datasets_not_FileNotFoundError:
  "prepare_datasets src_datasets tgt_datasets src_dict tgt_dict upsample_primary
     max_source_positions prepend_bos truncate_source append_source_id \<noteq> Inl FileNotFoundError"
  by (simp add: prepare_datasets_def Let_def split: prod.splits)

lemma load_shards_later_not_FileNotFoundError:
  "0 < k \<Longrightarrow> load_shards fs dataset_impl data_path split src tgt combine k src_datasets
            tgt_datasets \<noteq> Some (Inl FileNotFoundError)"
  using load_shards_not_FileNotFoundError by blast

lemma load_base_datasets_FileNotFoundError_iff:
  "load_base_datasets fs data_path split src src_dict tgt tgt_dict combine dataset_impl
     upsample_primary max_source_positions prepend_bos truncate_source append_source_id
     = Some (Inl FileNotFoundError) \<longleftrightarrow>
   shard_datasets fs dataset_impl data_path split src tgt 0 = None"
proof (cases "shard_datasets fs dataset_impl data_path split src tgt 0")
  case None
  then show ?thesis
    by (simp add: load_base_datasets_def load_shards_stop)
next
  case (Some st)
  obtain s t where st: "st = (s, t)" by (cases st)
  show ?thesis
  proof (cases combine)
    case False
    then show ?thesis
      using Some st prepare_datasets_not_FileNotFoundError
      by (simp add: load_base_datasets_def load_shards_step)
  next
    case True
    then show ?thesis
      using Some st prepare_datasets_not_FileNotFoundError
      by (auto simp: load_base_datasets_def load_shards_step
            load_shards_later_not_FileNotFoundError split: option.splits sum.splits)
  qed
qed

lemma load_langpair_sumdataset_error_iff:
  "load_langpair_sumdataset fs data_path split src src_dict src_lang tgt tgt_dict tgt_lang
       combine dataset_impl upsample_primary left_pad_source left_pad_target
       max_source_positions max_target_positions prepend_bos load_alignments
       truncate_source append_source_id trg_prepend = Some (Inl e) \<longleftrightarrow>
   load_base_datasets fs data_path split src src_dict tgt tgt_dict combine dataset_impl
     upsample_primary max_source_positions prepend_bos truncate_source append_source_id
     = Some (Inl e)"
  by (auto simp: load_langpair_sumdataset_def Let_def split: option.splits sum.splits prod.splits)

lemma example_shards:
  "shard_datasets example_store None ''data/en'' ''train'' ''doc'' ''sum'' 0 =
     Some (IndexedDataset [[4, 5, 6, 2], [8, 2]], Some (IndexedDataset [[9, 2], [10, 2]]))"
  "shard_datasets example_store None ''data/en'' ''train'' ''doc'' ''sum'' (Suc 0) =
     Some (IndexedDataset [[11, 2]], None)"
  "shard_datasets example_store None ''data/en'' ''train'' ''doc'' ''sum'' 2 = None"
  "shard_datasets example_store None ''data/zh'' ''train'' ''doc'' ''sum'' 0 =
     Some (IndexedDataset [[12, 13, 2]], Some (IndexedDataset [[14, 2]]))"
  "shard_datasets example_store None ''data/zh'' ''train'' ''doc'' ''sum'' (Suc 0) = None"
  "shard_datasets example_store None ''data/zh'' ''valid'' ''doc'' ''sum'' 0 = None"
  by (simp_all add: shard_datasets_def shard_prefix_def shard_name_def split_exists_def
        dataset_exists_def load_indexed_dataset_def os_path_join_def startswith_def
        endswith_def example_store_def str_nat.simps digit_char_def)

lemma all_less_two: "(\<forall>j<(2::nat). P j) \<longleftrightarrow> P 0 \<and> P (Suc 0)"
  by (auto simp: less_2_cases_iff)

lemma upt_two: "[0..<2] = [0, Suc 0]"
  by (simp add: numeral_2_eq_2)

lemma shard_name_simps:
  "shard_name split 0 = split"
  "shard_name split (Suc 0) = split @ ''1''"
  "shard_name split 2 = split @ ''2''"
  by (simp_all add: shard_name_def str_nat.simps digit_char_def)

lemma example_exists:
  "split_exists example_store None ''train'' ''doc'' ''sum'' ''doc'' ''data/en''"
  "split_exists example_store None ''train1'' ''doc'' ''sum'' ''doc'' ''data/en''"
  "\<not> split_exists example_store None ''train2'' ''doc'' ''sum'' ''doc'' ''data/en''"
  "\<not> split_exists example_store None ''train2'' ''sum'' ''doc'' ''doc'' ''data/en''"
  "\<not> split_exists example_store None ''valid'' ''doc'' ''sum'' ''doc'' ''data/zh''"
  "\<not> split_exists example_store None ''valid'' ''sum'' ''doc'' ''doc'' ''data/zh''"
  by (simp_all add: split_exists_def dataset_exists_def os_path_join_def startswith_def
        endswith_def example_store_def)

lemmas example_simps = shard_name_simps example_exists example_shards List.map_filter_simps

section \<open>Claims about \<^verbatim>\<open>load_langpair_sumdataset\<close>\<close>

text \<open>
  Claim C4. \<^verbatim>\<open>load_langpair_sumdataset\<close> raises \<^verbatim>\<open>FileNotFoundError\<close> if and only
  if the base shard (\<open>k = 0\<close>, named \<open>split\<close>) exists under neither naming
  direction, \<^verbatim>\<open>{split}.{src}-{tgt}.{src}\<close> or \<^verbatim>\<open>{split}.{tgt}-{src}.{src}\<close>, in
  the data path. When \<open>combine\<close> is false and the base shard exists, the loop loads
  the base shard only. When \<open>combine\<close> is true, the shards \<open>0, ..., n - 1\<close> exist and
  the shard \<open>n > 0\<close> is missing, the loop leaves without raising, having loaded exactly
  the \<open>n\<close> consecutive shards \<open>split\<close>, \<open>split1\<close>, ... in this order.
\<close>

theorem load_langpair_sumdataset_shards:
  "(load_langpair_sumdataset fs data_path split src src_dict src_lang tgt tgt_dict tgt_lang
       combine dataset_impl upsample_primary left_pad_source left_pad_target
       max_source_positions max_target_positions prepend_bos load_alignments
       truncate_source append_source_id trg_prepend = Some (Inl FileNotFoundError)
     \<longleftrightarrow> \<not> split_exists fs dataset_impl split src tgt src data_path
         \<and> \<not> split_exists fs dataset_impl split tgt src src data_path)
   \<and> (\<not> combine \<and> 
        (split_exists fs dataset_impl split src tgt src data_path
         \<or> split_exists fs dataset_impl split tgt src src data_path) \<longrightarrow>
       load_shards fs dataset_impl data_path split src tgt combine 0 [] [] =
         Some (Inr (List.map_filter
                      (\<lambda>j. map_option fst (shard_datasets fs dataset_impl data_path split src tgt j))
                      [0..<1],
                    List.map_filter
                      (\<lambda>j. Option.bind (shard_datasets fs dataset_impl data_path split src tgt j) snd)
                      [0..<1])))
   \<and> (combine \<and> 0 < n
       \<and> (\<forall>j<n. split_exists fs dataset_impl (shard_name split j) src tgt src data_path
                \<or> split_exists fs dataset_impl (shard_name split j) tgt src src data_path)
       \<and> \<not> split_exists fs dataset_impl (shard_name split n) src tgt src data_path
       \<and> \<not> split_exists fs dataset_impl (shard_name split n) tgt src src data_path \<longrightarrow>
       load_shards fs dataset_impl data_path split src tgt combine 0 [] [] =
         Some (Inr (List.map_filter
                      (\<lambda>j. map_option fst (shard_datasets fs dataset_impl data_path split src tgt j))
                      [0..<n],
                    List.map_filter
                      (\<lambda>j. Option.bind (shard_datasets fs dataset_impl data_path split src tgt j) snd)
                      [0..<n]))
       \<and> length (List.map_filter
                      (\<lambda>j. map_option fst (shard_datasets fs dataset_impl data_path split src tgt j))
                      [0..<n]) = n)"
  (is "?A \<and> ?B \<and> ?C")
proof (intro conjI)
  show ?A
    by (simp add: load_langpair_sumdataset_error_iff load_base_datasets_FileNotFoundError_iff
          shard_datasets_None_iff shard_prefix_None_iff shard_name_def)
  show ?B
  proof
    assume h: "\<not> combine \<and> 
        (split_exists fs dataset_impl split src tgt src data_path
         \<or> split_exists fs dataset_impl split tgt src src data_path)"
    then have "shard_datasets fs dataset_impl data_path split src tgt 0 \<noteq> None"
      by (simp add: shard_datasets_None_iff shard_prefix_None_iff shard_name_def)
    then obtain s t where "shard_datasets fs dataset_impl data_path split src tgt 0 = Some (s, t)"
      by auto
    with h show "load_shards fs dataset_impl data_path split src tgt combine 0 [] [] =
         Some (Inr (List.map_filter
                      (\<lambda>j. map_option fst (shard_datasets fs dataset_impl data_path split src tgt j))
                      [0..<1],
                    List.map_filter
                      (\<lambda>j. Option.bind (shard_datasets fs dataset_impl data_path split src tgt j) snd)
                      [0..<1]))"
      by (cases t) (simp_all add: load_shards_step List.map_filter_simps)
  qed
  show ?C
  proof (intro impI, elim conjE)
    assume c: combine and n: "0 < n"
      and ex: "\<forall>j<n. split_exists fs dataset_impl (shard_name split j) src tgt src data_path
                \<or> split_exists fs dataset_impl (shard_name split j) tgt src src data_path"
      and m1: "\<not> split_exists fs dataset_impl (shard_name split n) src tgt src data_path"
      and m2: "\<not> split_exists fs dataset_impl (shard_name split n) tgt src src data_path"
    have all: "\<forall>j. 0 \<le> j \<and> j < n \<longrightarrow>
                 shard_datasets fs dataset_impl data_path split src tgt j \<noteq> None"
      using ex by (simp add: shard_datasets_None_iff shard_prefix_None_iff)
    have stop: "shard_datasets fs dataset_impl data_path split src tgt n = None"
      using m1 m2 by (simp add: shard_datasets_None_iff shard_prefix_None_iff)
    have len: "length (List.map_filter
                      (\<lambda>j. map_option fst (shard_datasets fs dataset_impl data_path split src tgt j))
                      [0..<n]) = n"
      using all by (simp add: List.map_filter_def filter_True del: upt_Suc)
    show "load_shards fs dataset_impl data_path split src tgt combine 0 [] [] =
         Some (Inr (List.map_filter
                      (\<lambda>j. map_option fst (shard_datasets fs dataset_impl data_path split src tgt j))
                      [0..<n],
                    List.map_filter
                      (\<lambda>j. Option.bind (shard_datasets fs dataset_impl data_path split src tgt j) snd)
                      [0..<n]))
       \<and> length (List.map_filter
                      (\<lambda>j. map_option fst (shard_datasets fs dataset_impl data_path split src tgt j))
                      [0..<n]) = n"
      using load_shards_run [OF c all stop _ n, of "[]" "[]"] len by simp
  qed
qed

theorem load_langpair_sumdataset_shards_witness:
  "load_langpair_sumdataset example_store ''data/zh'' ''valid'' ''doc'' example_dict ''zh_CN''
     ''sum'' example_dict ''zh_CN'' False None 1 True False 1024 1024 False False False True False
     = Some (Inl FileNotFoundError)
   \<and> load_shards example_store None ''data/en'' ''train'' ''doc'' ''sum'' False 0 [] [] =
       Some (Inr ([IndexedDataset [[4, 5, 6, 2], [8, 2]]], [IndexedDataset [[9, 2], [10, 2]]]))
   \<and> load_shards example_store None ''data/en'' ''train'' ''doc'' ''sum'' True 0 [] [] =
       Some (Inr ([IndexedDataset [[4, 5, 6, 2], [8, 2]], IndexedDataset [[11, 2]]],
                  [IndexedDataset [[9, 2], [10, 2]]]))"
proof (intro conjI)
  show "load_langpair_sumdataset example_store ''data/zh'' ''valid'' ''doc'' example_dict ''zh_CN''
     ''sum'' example_dict ''zh_CN'' False None 1 True False 1024 1024 False False False True False
     = Some (Inl FileNotFoundError)"
    using load_langpair_sumdataset_shards
      [where fs = example_store and data_path = "''data/zh''" and split = "''valid''"
         and src = "''doc''" and tgt = "''sum''" and dataset_impl = None and combine = False
         and src_dict = example_dict and tgt_dict = example_dict and src_lang = "''zh_CN''"
         and tgt_lang = "''zh_CN''" and upsample_primary = 1 and left_pad_source = True
         and left_pad_target = False and max_source_positions = 1024
         and max_target_positions = 1024 and prepend_bos = False and load_alignments = False
         and truncate_source = False and append_source_id = True and trg_prepend = False]
    by (simp add: example_simps)
  show "load_shards example_store None ''data/en'' ''train'' ''doc'' ''sum'' False 0 [] [] =
       Some (Inr ([IndexedDataset [[4, 5, 6, 2], [8, 2]]], [IndexedDataset [[9, 2], [10, 2]]]))"
    using load_langpair_sumdataset_shards
      [where fs = example_store and data_path = "''data/en''" and split = "''train''"
         and src = "''doc''" and tgt = "''sum''" and dataset_impl = None and combine = False]
    by (simp add: example_simps)
  show "load_shards example_store None ''data/en'' ''train'' ''doc'' ''sum'' True 0 [] [] =
       Some (Inr ([IndexedDataset [[4, 5, 6, 2], [8, 2]], IndexedDataset [[11, 2]]],
                  [IndexedDataset [[9, 2], [10, 2]]]))"
    using load_langpair_sumdataset_shards
      [where fs = example_store and data_path = "''data/en''" and split = "''train''"
         and src = "''doc''" and tgt = "''sum''" and dataset_impl = None and combine = True
         and n = 2]
    by (simp add: example_simps all_less_two upt_two)
qed

section \<open>Truncation of the source\<close>

lemma load_langpair_sumdataset_append:
  assumes "load_langpair_sumdataset fs data_path split src src_dict src_lang tgt tgt_dict tgt_lang
       combine dataset_impl upsample_primary left_pad_source left_pad_target
       max_source_positions max_target_positions prepend_bos load_alignments
       truncate_source True trg_prepend = Some (Inr d)"
  shows "\<exists>src0 tgt0.
     load_base_datasets fs data_path split src src_dict tgt tgt_dict combine dataset_impl
       upsample_primary max_source_positions prepend_bos truncate_source True
       = Some (Inr (src0, tgt0))
     \<and> lp_src d = AppendTokenDataset src0 (dict_index src_dict (lang_symbol src_lang))
     \<and> lp_tgt d = map_option
         (\<lambda>t. AppendTokenDataset
                (if trg_prepend then PrependTokenDataset t (dict_index tgt_dict (lang_symbol tgt_lang))
                 else t)
                (dict_index tgt_dict (lang_symbol tgt_lang))) tgt0
     \<and> lp_eos d = Some (dict_index tgt_dict (lang_symbol tgt_lang))"
  using assms
  by (auto simp: load_langpair_sumdataset_def Let_def split: option.splits sum.splits)

lemma prepare_datasets_truncate:
  assumes "prepare_datasets src_datasets tgt_datasets src_dict tgt_dict upsample_primary
             max_source_positions prepend_bos True append_source_id = Inr (s, t)"
  shows "\<exists>s0. prepare_datasets src_datasets tgt_datasets src_dict tgt_dict upsample_primary
             max_source_positions prepend_bos False append_source_id = Inr (s0, t)
         \<and> s = AppendTokenDataset
                 (TruncateDataset (StripTokenDataset s0 (dict_eos src_dict))
                    ((if append_source_id then max_source_positions - 1
                      else max_source_positions) - 1))
                 (dict_eos src_dict)"
  using assms
  by (auto simp: prepare_datasets_def Let_def split: if_splits prod.splits)

lemma load_base_datasets_truncate:
  assumes "load_base_datasets fs data_path split src src_dict tgt tgt_dict combine dataset_impl
       upsample_primary max_source_positions prepend_bos True append_source_id
       = Some (Inr (s, t))"
  shows "\<exists>s0. load_base_datasets fs data_path split src src_dict tgt tgt_dict combine dataset_impl
       upsample_primary max_source_positions prepend_bos False append_source_id
       = Some (Inr (s0, t))
         \<and> s = AppendTokenDataset
                 (TruncateDataset (StripTokenDataset s0 (dict_eos src_dict))
                    ((if append_source_id then max_source_positions - 1
                      else max_source_positions) - 1))
                 (dict_eos src_dict)"
proof -
  from assms obtain src_datasets tgt_datasets where
    "prepare_datasets src_datasets tgt_datasets src_dict tgt_dict upsample_primary
       max_source_positions prepend_bos True append_source_id = Inr (s, t)"
    and loop: "load_shards fs dataset_impl data_path split src tgt combine 0 [] [] =
       Some (Inr (src_datasets, tgt_datasets))"
    by (auto simp: load_base_datasets_def split: option.splits sum.splits)
  from prepare_datasets_truncate [OF this(1)] loop show ?thesis
    by (simp add: load_base_datasets_def)
qed

lemma truncate_item_nonneg: "0 \<le> n \<Longrightarrow> truncate_item n item = take (nat n) item"
  by (simp add: truncate_item_def)

lemma example_loops:
  "load_shards example_store None ''data/zh'' ''train'' ''doc'' ''sum'' False 0 [] [] =
     Some (Inr ([IndexedDataset [[12, 13, 2]]], [IndexedDataset [[14, 2]]]))"
  "load_shards example_store None ''data/en'' ''train'' ''doc'' ''sum'' False 0 [] [] =
     Some (Inr ([IndexedDataset [[4, 5, 6, 2], [8, 2]]], [IndexedDataset [[9, 2], [10, 2]]]))"
  by (simp_all add: load_shards_step example_shards)

lemmas load_defs = load_langpair_sumdataset_def load_base_datasets_def prepare_datasets_def
  dataset_exists_def load_indexed_dataset_def Let_def lang_symbol_def

text \<open>
  Claim C9, as amended. When \<^verbatim>\<open>truncate_source\<close> is set together with
  \<^verbatim>\<open>append_source_id\<close> and \<^verbatim>\<open>max_source_positions\<close> is at least 2, every
  source sequence of the returned dataset is the sequence before truncation with the
  end-of-sentence token stripped, cut to \<^verbatim>\<open>max_source_positions - 2\<close> tokens, and
  followed by the end-of-sentence token and the source language-id token; its length is
  at most \<^verbatim>\<open>max_source_positions\<close>. This holds however \<^verbatim>\<open>StripTokenDataset\<close>
  strips.
\<close>

theorem truncated_source_within_max_source_positions:
  assumes "load_langpair_sumdataset fs data_path split src src_dict src_lang tgt tgt_dict tgt_lang
       combine dataset_impl upsample_primary left_pad_source left_pad_target
       max_source_positions max_target_positions prepend_bos load_alignments
       True True trg_prepend = Some (Inr d)"
    and "2 \<le> max_source_positions"
  shows "\<exists>src0 tgt0.
     load_base_datasets fs data_path split src src_dict tgt tgt_dict combine dataset_impl
       upsample_primary max_source_positions prepend_bos False True = Some (Inr (src0, tgt0))
     \<and> items strip (lp_src d) =
         map (\<lambda>item. take (nat (max_source_positions - 2)) (strip (dict_eos src_dict) item)
                      @ [dict_eos src_dict, dict_index src_dict (''['' @ src_lang @ '']'')])
           (items strip src0)
     \<and> (\<forall>s \<in> set (items strip (lp_src d)). int (length s) \<le> max_source_positions)"
proof -
  from load_langpair_sumdataset_append [OF assms(1)] obtain s t where
    base: "load_base_datasets fs data_path split src src_dict tgt tgt_dict combine dataset_impl
       upsample_primary max_source_positions prepend_bos True True = Some (Inr (s, t))"
    and src: "lp_src d = AppendTokenDataset s (dict_index src_dict (lang_symbol src_lang))"
    by blast
  from load_base_datasets_truncate [OF base] obtain s0 where
    base0: "load_base_datasets fs data_path split src src_dict tgt tgt_dict combine dataset_impl
       upsample_primary max_source_positions prepend_bos False True = Some (Inr (s0, t))"
    and s: "s = AppendTokenDataset
                 (TruncateDataset (StripTokenDataset s0 (dict_eos src_dict))
                    (max_source_positions - 1 - 1))
                 (dict_eos src_dict)"
    by auto
  have shape: "items strip (lp_src d) =
         map (\<lambda>item. take (nat (max_source_positions - 2)) (strip (dict_eos src_dict) item)
                      @ [dict_eos src_dict, dict_index src_dict (''['' @ src_lang @ '']'')])
           (items strip s0)"
    using assms(2) by (simp add: src s truncate_item_nonneg lang_symbol_def)
  have bound: "\<forall>s \<in> set (items strip (lp_src d)). int (length s) \<le> max_source_positions"
    unfolding shape using assms(2) by auto
  from base0 shape bound show ?thesis by blast
qed

theorem truncated_source_within_max_source_positions_witness:
  "map_option (map_sum id (\<lambda>d. items removeAll (lp_src d)))
     (load_langpair_sumdataset example_store ''data/zh'' ''train'' ''doc'' example_dict ''zh_CN''
        ''sum'' example_dict ''zh_CN'' False None 1 True False 3 1024 False False True True False)
     = Some (Inr [[12, 2, 8]])
   \<and> list_all (\<lambda>s. int (length s) \<le> 3) [[12, 2, 8::nat]]"
  using truncated_source_within_max_source_positions
    [where fs = example_store and data_path = "''data/zh''" and split = "''train''"
       and src = "''doc''" and tgt = "''sum''" and dataset_impl = None and combine = False
       and src_dict = example_dict and tgt_dict = example_dict and src_lang = "''zh_CN''"
       and tgt_lang = "''zh_CN''" and upsample_primary = 1 and left_pad_source = True
       and left_pad_target = False and max_source_positions = 3
       and max_target_positions = 1024 and prepend_bos = False and load_alignments = False
       and trg_prepend = False and strip = removeAll]
  by (simp add: load_defs example_loops example_dict_simps)

text \<open>
  With \<^verbatim>\<open>max_source_positions = 1\<close> the bound of claim C9 fails: the two appended
  tokens alone exceed it. The Chinese corpus holds the one source sequence
  \<open>[12, 13, 2]\<close>; it becomes \<open>[12, 2, 8]\<close>, of length 3.
\<close>

theorem truncated_source_exceeds_small_max_source_positions:
  "map_option (map_sum id (\<lambda>d. items removeAll (lp_src d)))
     (load_langpair_sumdataset example_store ''data/zh'' ''train'' ''doc'' example_dict ''zh_CN''
        ''sum'' example_dict ''zh_CN'' False None 1 True False 1 1024 False False True True False)
     = Some (Inr [[12, 2, 8]])
   \<and> \<not> int (length [12, 2, 8::nat]) \<le> 1"
  by (simp add: load_defs example_loops example_dict_simps truncate_item_def)

section \<open>The registry after \<^verbatim>\<open>load_dataset\<close>\<close>

lemma load_lang_datasets_all2:
  "load_lang_datasets fs self data_path split src tgt combine languages = Some (Inr lang_datasets)
   \<Longrightarrow> list_all2 (\<lambda>lang d. load_lang_dataset fs self data_path split src tgt combine lang
                                = Some (Inr d)) languages lang_datasets"
proof (induction languages arbitrary: lang_datasets)
  case Nil
  then show ?case by simp
next
  case (Cons lang languages)
  then show ?case
    by (auto split: option.splits sum.splits)
qed

lemma register_step_simp:
  "register_step split languages (lang_id, lang_dataset) (lang_splits, datasets) =
     (lang_splits @ [split @ ''_'' @ languages ! lang_id],
      datasets(split @ ''_'' @ languages ! lang_id \<mapsto> LanguagePairDataset lang_dataset))"
  by (simp add: register_step_def Let_def)

lemma register_fold_splits:
  "fst (fold (register_step split languages) (List.enumerate i lds) (ls, m)) =
     ls @ map (\<lambda>j. split @ ''_'' @ languages ! j) [i..<i + length lds]"
proof (induction lds arbitrary: i ls m)
  case Nil
  then show ?case by simp
next
  case (Cons d lds)
  have "[i..<i + length (d # lds)] = i # [Suc i..<Suc i + length lds]"
    using upt_conv_Cons [of i "i + length (d # lds)"] by simp
  then show ?case
    using Cons.IH [of "Suc i"] by (simp add: register_step_simp del: upt_Suc)
qed

lemma register_fold_other:
  "\<forall>j<length lds. key \<noteq> split @ ''_'' @ languages ! (i + j) \<Longrightarrow>
   snd (fold (register_step split languages) (List.enumerate i lds) (ls, m)) key = m key"
proof (induction lds arbitrary: i ls m)
  case Nil
  then show ?case by simp
next
  case (Cons d lds)
  from Cons.prems have here: "key \<noteq> split @ ''_'' @ languages ! i" by force
  from Cons.prems have later: "\<forall>j<length lds. key \<noteq> split @ ''_'' @ languages ! (Suc i + j)"
    by force
  show ?case
    using Cons.IH [OF later] here by (simp add: register_step_simp)
qed

lemma register_fold_lookup:
  "\<exists>j<length lds. key = split @ ''_'' @ languages ! (i + j) \<Longrightarrow>
   \<exists>j<length lds. key = split @ ''_'' @ languages ! (i + j) \<and>
     snd (fold (register_step split languages) (List.enumerate i lds) (ls, m)) key =
       Some (LanguagePairDataset (lds ! j))"
proof (induction lds arbitrary: i ls m)
  case Nil
  then show ?case by simp
next
  case (Cons d lds)
  show ?case
  proof (cases "\<exists>j<length lds. key = split @ ''_'' @ languages ! (Suc i + j)")
    case True
    from Cons.IH [OF True] obtain j where
      "j < length lds" "key = split @ ''_'' @ languages ! (Suc i + j)"
      "snd (fold (register_step split languages) (List.enumerate (Suc i) lds)
              (ls @ [split @ ''_'' @ languages ! i],
               m(split @ ''_'' @ languages ! i \<mapsto> LanguagePairDataset d))) key =
         Some (LanguagePairDataset (lds ! j))"
      by blast
    then show ?thesis
      by (intro exI [of _ "Suc j"]) (simp add: register_step_simp)
  next
    case False
    with Cons.prems have here: "key = split @ ''_'' @ languages ! i"
      by (metis add_Suc_shift less_Suc_eq_0_disj length_Cons add_0_right add.right_neutral)
    from False have "\<forall>j<length lds. key \<noteq> split @ ''_'' @ languages ! (Suc i + j)" by blast
    from register_fold_other [OF this] here show ?thesis
      by (intro exI [of _ 0]) (simp add: register_step_simp)
  qed
qed

lemma registered_language:
  assumes all2: "list_all2 P languages lds" and lang: "lang \<in> set languages"
  shows "\<exists>d. P lang d \<and> d \<in> set lds \<and>
     snd (fold (register_step split languages) (List.enumerate 0 lds) (ls, m))
       (split @ ''_'' @ lang) = Some (LanguagePairDataset d)"
proof -
  from all2 have len: "length languages = length lds" by (rule list_all2_lengthD)
  from lang obtain j0 where "j0 < length languages" "languages ! j0 = lang"
    by (auto simp: in_set_conv_nth)
  with len have "\<exists>j<length lds. split @ ''_'' @ lang = split @ ''_'' @ languages ! (0 + j)"
    by auto
  from register_fold_lookup [OF this] obtain j where
    j: "j < length lds" "split @ ''_'' @ lang = split @ ''_'' @ languages ! (0 + j)"
    "snd (fold (register_step split languages) (List.enumerate 0 lds) (ls, m))
       (split @ ''_'' @ lang) = Some (LanguagePairDataset (lds ! j))"
    by blast
  from j(2) have "languages ! j = lang" by simp
  with all2 j(1) len have "P lang (lds ! j)"
    by (metis list_all2_nthD2)
  moreover have "lds ! j \<in> set lds" using j(1) by simp
  ultimately show ?thesis using j(3) by blast
qed

lemma load_dataset_success:
  assumes run: "load_dataset fs permutation self split epoch combine = Some (Inr self')"
    and paths: "paths = str_split (args_data (task_args self)) (CHR '':'')"
    and data_path: "data_path = paths ! nat ((epoch - 1) mod int (length paths))"
  shows "\<exists>lang_datasets.
     load_lang_datasets fs self data_path split (args_source_lang (task_args self))
       (args_target_lang (task_args self)) combine (task_langs_for_summ self)
       = Some (Inr lang_datasets)
     \<and> task_datasets self' =
         (snd (fold (register_step split (task_langs_for_summ self))
                 (List.enumerate 0 lang_datasets) ([split], task_datasets self)))
         (split \<mapsto> ConcatDatasets lang_datasets)
     \<and> args_valid_subset (task_args self') =
         (if str_contains (args_valid_subset (task_args self)) split
          then str_replace (args_valid_subset (task_args self)) split
                 (str_join '',''
                    (fst (fold (register_step split (task_langs_for_summ self))
                            (List.enumerate 0 lang_datasets) ([split], task_datasets self))))
          else args_valid_subset (task_args self))
     \<and> task_src_dict self' = task_src_dict self
     \<and> task_tgt_dict self' = task_tgt_dict self
     \<and> task_langs_for_summ self' = task_langs_for_summ self"
  using run unfolding load_dataset_def paths data_path Let_def
  by (auto split: if_splits option.splits sum.splits prod.splits)


lemmas example_fixture_defs = example_task_def init_def example_args_def

lemma example_lang_datasets:
  "load_lang_dataset example_store example_task ''data'' ''train'' ''doc'' ''sum'' False ''en_XX''
     = Some (Inr example_en)"
  "load_lang_dataset example_store example_task ''data'' ''train'' ''doc'' ''sum'' False ''zh_CN''
     = Some (Inr example_zh)"
  by (simp_all add: load_lang_dataset_def example_fixture_defs getattr_def os_path_join_def
        startswith_def endswith_def load_defs example_loops example_dict_simps
        example_en_def example_zh_def)

lemma example_run:
  "load_dataset example_store example_permutation example_task ''train'' 1 False
     = Some (Inr example_loaded)"
proof -
  have langs: "task_langs_for_summ example_task = [''en_XX'', ''zh_CN'']"
    by (simp add: example_fixture_defs)
  have data: "str_split (args_data (task_args example_task)) (CHR '':'') = [''data'']"
    by (simp add: example_fixture_defs)
  have sl: "args_source_lang (task_args example_task) = ''doc''"
    "args_target_lang (task_args example_task) = ''sum''"
    "args_valid_subset (task_args example_task) = ''valid,train''"
    by (simp_all add: example_fixture_defs)
  have len: "len (lp_src example_en) = 2" "len (lp_src example_zh) = 1"
    by (simp_all add: example_en_def example_zh_def)
  have enum: "List.enumerate 0 [example_en, example_zh] = [(0, example_en), (Suc 0, example_zh)]"
    by simp
  have vs: "str_contains ''valid,train'' ''train''"
    "str_replace ''valid,train'' ''train'' ''train,train_en_XX,train_zh_CN''
       = ''valid,train,train_en_XX,train_zh_CN''"
    by (simp_all add: startswith_def str_replace_def)
  have base: "task_datasets example_task = Map.empty" "task_args example_task = example_args"
    by (simp_all add: example_task_def init_def)
  show ?thesis
    unfolding load_dataset_def data langs sl Let_def
    by (simp add: example_lang_datasets len enum register_step_simp vs example_loaded_def base
          del: str_contains.simps)
qed

lemma register_fold_splits_all:
  assumes "length lds = length languages"
  shows "fst (fold (register_step split languages) (List.enumerate 0 lds) ([split], m)) =
     split # map (\<lambda>lang. split @ ''_'' @ lang) languages"
proof -
  have "map (\<lambda>j. split @ ''_'' @ languages ! j) [0..<length languages] =
        map (\<lambda>lang. split @ ''_'' @ lang) (map ((!) languages) [0..<length languages])"
    by simp
  also have "\<dots> = map (\<lambda>lang. split @ ''_'' @ lang) languages"
    by (simp only: map_nth)
  finally show ?thesis
    using assms register_fold_splits [of split languages 0 lds "[split]" m] by simp
qed

lemma load_dataset_languages:
  assumes "load_dataset fs permutation self split epoch combine = Some (Inr self')"
    and "paths = str_split (args_data (task_args self)) (CHR '':'')"
    and "data_path = paths ! nat ((epoch - 1) mod int (length paths))"
  shows "\<exists>lds.
      task_datasets self' split = Some (ConcatDatasets lds)
    \<and> list_all2 (\<lambda>lang d. load_lang_dataset fs self data_path split
                     (args_source_lang (task_args self)) (args_target_lang (task_args self))
                     combine lang = Some (Inr d)) (task_langs_for_summ self) lds
    \<and> (\<forall>lang \<in> set (task_langs_for_summ self). \<exists>d.
            load_lang_dataset fs self data_path split (args_source_lang (task_args self))
              (args_target_lang (task_args self)) combine lang = Some (Inr d)
            \<and> d \<in> set lds
            \<and> task_datasets self' (split @ ''_'' @ lang) = Some (LanguagePairDataset d))
    \<and> args_valid_subset (task_args self') =
           (if str_contains (args_valid_subset (task_args self)) split
            then str_replace (args_valid_subset (task_args self)) split
                   (str_join '',''
                      (split # map (\<lambda>lang. split @ ''_'' @ lang) (task_langs_for_summ self)))
            else args_valid_subset (task_args self))"
proof -
  from load_dataset_success [OF assms] obtain lds where
    lds: "load_lang_datasets fs self data_path split (args_source_lang (task_args self))
       (args_target_lang (task_args self)) combine (task_langs_for_summ self) = Some (Inr lds)"
    and reg: "task_datasets self' =
         (snd (fold (register_step split (task_langs_for_summ self))
                 (List.enumerate 0 lds) ([split], task_datasets self)))
         (split \<mapsto> ConcatDatasets lds)"
    and vs: "args_valid_subset (task_args self') =
         (if str_contains (args_valid_subset (task_args self)) split
          then str_replace (args_valid_subset (task_args self)) split
                 (str_join '',''
                    (fst (fold (register_step split (task_langs_for_summ self))
                            (List.enumerate 0 lds) ([split], task_datasets self))))
          else args_valid_subset (task_args self))"
    by blast
  note all2 = load_lang_datasets_all2 [OF lds]
  have len: "length lds = length (task_langs_for_summ self)"
    using all2 by (simp add: list_all2_lengthD)
  have each: "\<exists>d. load_lang_dataset fs self data_path split (args_source_lang (task_args self))
              (args_target_lang (task_args self)) combine lang = Some (Inr d)
            \<and> d \<in> set lds
            \<and> task_datasets self' (split @ ''_'' @ lang) = Some (LanguagePairDataset d)"
    if "lang \<in> set (task_langs_for_summ self)" for lang
    using registered_language [OF all2 that, of split "[split]" "task_datasets self"]
    by (auto simp: reg)
  have whole: "task_datasets self' split = Some (ConcatDatasets lds)"
    by (simp add: reg)
  from whole all2 each vs show ?thesis
    by (auto simp: register_fold_splits_all [OF len])
qed

lemma example_task_simps:
  "task_langs_for_summ example_task = [''en_XX'', ''zh_CN'']"
  "args_source_lang (task_args example_task) = ''doc''"
  "args_target_lang (task_args example_task) = ''sum''"
  "args_valid_subset (task_args example_task) = ''valid,train''"
  "task_src_dict example_task = example_dict"
  "task_tgt_dict example_task = example_dict"
  "args_fix2x (task_args example_task) = []"
  "args_trg_prepend (task_args example_task) = Some False"
  "args_preprend_bos (task_args example_task) = None"
  "args_prepend_bos (task_args example_task) = Some True"
  by (simp_all add: example_fixture_defs)

lemma example_loaded_simps:
  "task_datasets example_loaded ''train'' = Some (ConcatDatasets [example_en, example_zh])"
  "task_datasets example_loaded ''train_en_XX'' = Some (LanguagePairDataset example_en)"
  "task_datasets example_loaded ''train_zh_CN'' = Some (LanguagePairDataset example_zh)"
  "args_valid_subset (task_args example_loaded) = ''valid,train,train_en_XX,train_zh_CN''"
  by (simp_all add: example_loaded_def)

lemma load_lang_dataset_unfold:
  "load_lang_dataset fs self data_path split src tgt combine lang =
     load_langpair_sumdataset fs
       (os_path_join data_path (takeWhile (\<lambda>c. c \<noteq> CHR ''_'') lang)) split
       src (task_src_dict self)
       (if args_fix2x (task_args self) \<noteq> [] then args_fix2x (task_args self) else lang)
       tgt (task_tgt_dict self) lang
       combine (args_dataset_impl (task_args self))
       (args_upsample_primary (task_args self))
       (args_left_pad_source (task_args self))
       (args_left_pad_target (task_args self))
       (getattr (args_max_source_positions (task_args self)) 1024)
       (getattr (args_max_target_positions (task_args self)) 1024)
       (getattr (args_preprend_bos (task_args self)) False)
       (args_load_alignments (task_args self))
       (args_truncate_source (task_args self))
       True
       (getattr (args_trg_prepend (task_args self)) False)"
  by (simp add: load_lang_dataset_def Let_def str_split_first)

lemma example_langpairs:
  "load_langpair_sumdataset example_store ''data/en'' ''train'' ''doc'' example_dict ''en_XX''
     ''sum'' example_dict ''en_XX'' False None 1 True False 1024 1024 False False False True False
     = Some (Inr example_en)"
  "load_langpair_sumdataset example_store ''data/zh'' ''train'' ''doc'' example_dict ''zh_CN''
     ''sum'' example_dict ''zh_CN'' False None 1 True False 1024 1024 False False False True False
     = Some (Inr example_zh)"
  by (simp_all add: load_defs example_loops example_dict_simps example_en_def example_zh_def)

lemma load_shards_no_prepend:
  assumes run: "load_shards fs dataset_impl data_path split src tgt combine k src_datasets
                  tgt_datasets = Some y"
  shows "(\<forall>d \<in> set src_datasets \<union> set tgt_datasets. prepended_tokens d = []) \<longrightarrow>
         (case y of Inl e \<Rightarrow> True
          | Inr (ss, ts) \<Rightarrow> \<forall>d \<in> set ss \<union> set ts. prepended_tokens d = [])"
  by (rule load_shards.raw_induct
        [where P = "\<lambda>fs dataset_impl data_path split src tgt combine k src_datasets tgt_datasets y.
           (\<forall>d \<in> set src_datasets \<union> set tgt_datasets. prepended_tokens d = []) \<longrightarrow>
           (case y of Inl e \<Rightarrow> True
            | Inr (ss, ts) \<Rightarrow> \<forall>d \<in> set ss \<union> set ts. prepended_tokens d = [])", OF _ run])
     (auto simp: Let_def load_indexed_dataset_def split: option.splits if_splits)

lemma prepare_datasets_no_prepend:
  assumes "prepare_datasets src_datasets tgt_datasets src_dict tgt_dict upsample_primary
             max_source_positions False truncate_source append_source_id = Inr (s, t)"
    and "\<forall>d \<in> set src_datasets \<union> set tgt_datasets. prepended_tokens d = []"
  shows "prepended_tokens s = [] \<and> (\<forall>t'. t = Some t' \<longrightarrow> prepended_tokens t' = [])"
proof -
  have nth0: "src_datasets \<noteq> [] \<Longrightarrow> prepended_tokens (src_datasets ! 0) = []"
    "tgt_datasets \<noteq> [] \<Longrightarrow> prepended_tokens (tgt_datasets ! 0) = []"
    using assms(2) by (auto simp: nth_mem)
  show ?thesis
    using assms nth0
    by (auto simp: prepare_datasets_def Let_def split: if_splits)
qed

lemma load_base_datasets_no_prepend:
  assumes "load_base_datasets fs data_path split src src_dict tgt tgt_dict combine dataset_impl
       upsample_primary max_source_positions False truncate_source append_source_id
       = Some (Inr (s, t))"
  shows "prepended_tokens s = [] \<and> (\<forall>t'. t = Some t' \<longrightarrow> prepended_tokens t' = [])"
proof -
  from assms obtain src_datasets tgt_datasets where
    loop: "load_shards fs dataset_impl data_path split src tgt combine 0 [] [] =
       Some (Inr (src_datasets, tgt_datasets))"
    and prep: "prepare_datasets src_datasets tgt_datasets src_dict tgt_dict upsample_primary
       max_source_positions False truncate_source append_source_id = Inr (s, t)"
    by (auto simp: load_base_datasets_def split: option.splits sum.splits)
  from load_shards_no_prepend [OF loop]
  have "\<forall>d \<in> set src_datasets \<union> set tgt_datasets. prepended_tokens d = []" by simp
  from prepare_datasets_no_prepend [OF prep this] show ?thesis .
qed


section \<open>The loaders return\<close>

text \<open>
  The loop over the shards leaves as soon as \<open>combine\<close> is false or some shard is
  missing, as on every finite disk; then \<^verbatim>\<open>load_langpair_sumdataset\<close> and
  \<^verbatim>\<open>load_dataset\<close> return a result or raise, and do not run forever.
\<close>

lemma load_shards_returns:
  assumes "\<not> combine \<or> (\<exists>n. shard_datasets fs dataset_impl data_path split src tgt n = None)"
  shows "\<exists>r. load_shards fs dataset_impl data_path split src tgt combine 0 [] [] = Some r"
proof (cases combine)
  case False
  then show ?thesis
    by (cases "shard_datasets fs dataset_impl data_path split src tgt 0")
       (auto simp: load_shards_stop load_shards_step)
next
  case True
  with assms obtain m where m: "shard_datasets fs dataset_impl data_path split src tgt m = None"
    by blast
  define n where "n = (LEAST n. shard_datasets fs dataset_impl data_path split src tgt n = None)"
  have stop: "shard_datasets fs dataset_impl data_path split src tgt n = None"
    unfolding n_def using m by (rule LeastI)
  have below: "\<forall>j. 0 \<le> j \<and> j < n \<longrightarrow>
                 shard_datasets fs dataset_impl data_path split src tgt j \<noteq> None"
    unfolding n_def using not_less_Least by blast
  show ?thesis
  proof (cases "n = 0")
    case True
    with stop show ?thesis by (simp add: load_shards_stop)
  next
    case False
    then have "0 < n" by simp
    from load_shards_run [OF \<open>combine\<close> below stop _ this, of "[]" "[]"] show ?thesis by simp
  qed
qed

lemma load_langpair_sumdataset_returns:
  assumes "\<not> combine \<or> (\<exists>n. shard_datasets fs dataset_impl data_path split src tgt n = None)"
  shows "\<exists>r. load_langpair_sumdataset fs data_path split src src_dict src_lang tgt tgt_dict
           tgt_lang combine dataset_impl upsample_primary left_pad_source left_pad_target
           max_source_positions max_target_positions prepend_bos load_alignments
           truncate_source append_source_id trg_prepend = Some r"
  using load_shards_returns [OF assms]
  by (auto simp: load_langpair_sumdataset_def load_base_datasets_def Let_def
        split: option.splits sum.splits prod.splits)

lemma load_lang_datasets_returns:
  assumes "\<not> combine \<or> (\<forall>lang \<in> set languages. \<exists>n.
             shard_datasets fs (args_dataset_impl (task_args self))
               (os_path_join data_path (takeWhile (\<lambda>c. c \<noteq> CHR ''_'') lang)) split src tgt n
             = None)"
  shows "\<exists>r. load_lang_datasets fs self data_path split src tgt combine languages = Some r"
  using assms
proof (induction languages)
  case Nil
  then show ?case by simp
next
  case (Cons lang languages)
  have "\<exists>r. load_lang_dataset fs self data_path split src tgt combine lang = Some r"
    unfolding load_lang_dataset_unfold
    using Cons.prems by (intro load_langpair_sumdataset_returns) auto
  moreover have "\<exists>r. load_lang_datasets fs self data_path split src tgt combine languages = Some r"
    using Cons.prems by (intro Cons.IH) auto
  ultimately show ?case
    by (auto split: option.splits sum.splits)
qed

lemma load_dataset_returns:
  assumes "paths = str_split (args_data (task_args self)) (CHR '':'')"
    and "data_path = paths ! nat ((epoch - 1) mod int (length paths))"
    and "\<not> combine \<or> (\<forall>lang \<in> set (task_langs_for_summ self). \<exists>n.
             shard_datasets fs (args_dataset_impl (task_args self))
               (os_path_join data_path (takeWhile (\<lambda>c. c \<noteq> CHR ''_'') lang)) split
               (args_source_lang (task_args self)) (args_target_lang (task_args self)) n
             = None)"
  shows "\<exists>r. load_dataset fs permutation self split epoch combine = Some r"
  using load_lang_datasets_returns [OF assms(3)]
  unfolding load_dataset_def assms(1,2) Let_def
  by (auto split: option.splits sum.splits prod.splits)


lemma init_langs_for_summ:
  "task_langs_for_summ (init a src_dict tgt_dict) = str_split (args_langs_for_sum a) (CHR '','')"
  by (simp add: init_def)

section \<open>Claims about \<^verbatim>\<open>load_dataset\<close>\<close>

text \<open>
  In the theorems of this section \<open>data_path\<close> is the entry of the colon-separated
  \<^verbatim>\<open>args.data\<close> that the epoch selects, \<open>self\<close> is the task before the call and
  \<open>self'\<close> the task after a call that returns. The list \<^verbatim>\<open>langs_for_summ\<close> of a task
  is the comma-split \<^verbatim>\<open>--langs-for-sum\<close> (\<open>init_langs_for_summ\<close>), and
  \<^verbatim>\<open>load_dataset\<close> leaves it as it is.
\<close>

text \<open>
  Claim C1. For every language \<open>lang\<close> of \<^verbatim>\<open>langs_for_summ\<close>, the dataset that
  \<^verbatim>\<open>load_dataset\<close> builds for it (registered under \<open>split_lang\<close>, and a member of
  the concatenation registered under \<open>split\<close>) has the index of \<^verbatim>\<open>'[srclang]'\<close> in
  the source dictionary appended to every source sequence, where \<open>srclang\<close> is
  \<^verbatim>\<open>args.fix2x\<close> when that string is non-empty and \<open>lang\<close> otherwise; every target
  sequence has the index of \<^verbatim>\<open>'[lang]'\<close> in the target dictionary appended, and also
  prepended if and only if \<^verbatim>\<open>trg_prepend\<close> is set; the dataset's \<^verbatim>\<open>eos\<close> is that
  index. The sequences \<open>src0\<close> and \<open>tgt0\<close> are those of the datasets as loaded and
  prepared before the language-id tokens are added.
\<close>

theorem load_dataset_injects_language_ids:
  assumes "load_dataset fs permutation self split epoch combine = Some (Inr self')"
    and "paths = str_split (args_data (task_args self)) (CHR '':'')"
    and "data_path = paths ! nat ((epoch - 1) mod int (length paths))"
    and "lang \<in> set (task_langs_for_summ self)"
    and "srclang = (if args_fix2x (task_args self) \<noteq> [] then args_fix2x (task_args self)
                    else lang)"
    and "src_id = dict_index (task_src_dict self) (''['' @ srclang @ '']'')"
    and "tgt_id = dict_index (task_tgt_dict self) (''['' @ lang @ '']'')"
  shows "\<exists>d src0 tgt0 lang_datasets.
      task_datasets self' (split @ ''_'' @ lang) = Some (LanguagePairDataset d)
    \<and> task_datasets self' split = Some (ConcatDatasets lang_datasets)
    \<and> d \<in> set lang_datasets
    \<and> load_base_datasets fs
         (os_path_join data_path (takeWhile (\<lambda>c. c \<noteq> CHR ''_'') lang)) split
         (args_source_lang (task_args self)) (task_src_dict self)
         (args_target_lang (task_args self)) (task_tgt_dict self)
         combine (args_dataset_impl (task_args self)) (args_upsample_primary (task_args self))
         (getattr (args_max_source_positions (task_args self)) 1024)
         (getattr (args_preprend_bos (task_args self)) False)
         (args_truncate_source (task_args self)) True = Some (Inr (src0, tgt0))
    \<and> items strip (lp_src d) = map (\<lambda>s. s @ [src_id]) (items strip src0)
    \<and> map_option (items strip) (lp_tgt d) =
        map_option
          (\<lambda>t. map (\<lambda>s. (if getattr (args_trg_prepend (task_args self)) False then [tgt_id]
                          else []) @ s @ [tgt_id])
                 (items strip t)) tgt0
    \<and> lp_eos d = Some tgt_id"
proof -
  from load_dataset_languages [OF assms(1-3)] assms(4) obtain lds d where
    whole: "task_datasets self' split = Some (ConcatDatasets lds)"
    and d: "load_lang_dataset fs self data_path split (args_source_lang (task_args self))
              (args_target_lang (task_args self)) combine lang = Some (Inr d)"
       "d \<in> set lds"
       "task_datasets self' (split @ ''_'' @ lang) = Some (LanguagePairDataset d)"
    by blast
  from load_langpair_sumdataset_append [OF d(1) [unfolded load_lang_dataset_unfold]]
  obtain src0 tgt0 where
    base: "load_base_datasets fs
         (os_path_join data_path (takeWhile (\<lambda>c. c \<noteq> CHR ''_'') lang)) split
         (args_source_lang (task_args self)) (task_src_dict self)
         (args_target_lang (task_args self)) (task_tgt_dict self)
         combine (args_dataset_impl (task_args self)) (args_upsample_primary (task_args self))
         (getattr (args_max_source_positions (task_args self)) 1024)
         (getattr (args_preprend_bos (task_args self)) False)
         (args_truncate_source (task_args self)) True = Some (Inr (src0, tgt0))"
    and src: "lp_src d = AppendTokenDataset src0 (dict_index (task_src_dict self)
                (lang_symbol (if args_fix2x (task_args self) \<noteq> []
                              then args_fix2x (task_args self) else lang)))"
    and tgt: "lp_tgt d = map_option
         (\<lambda>t. AppendTokenDataset
                (if getattr (args_trg_prepend (task_args self)) False
                 then PrependTokenDataset t (dict_index (task_tgt_dict self) (lang_symbol lang))
                 else t)
                (dict_index (task_tgt_dict self) (lang_symbol lang))) tgt0"
    and eos: "lp_eos d = Some (dict_index (task_tgt_dict self) (lang_symbol lang))"
    by blast
  have s: "items strip (lp_src d) = map (\<lambda>s. s @ [src_id]) (items strip src0)"
    by (simp add: src assms(5,6) lang_symbol_def)
  have t: "map_option (items strip) (lp_tgt d) =
        map_option
          (\<lambda>t. map (\<lambda>s. (if getattr (args_trg_prepend (task_args self)) False then [tgt_id]
                          else []) @ s @ [tgt_id])
                 (items strip t)) tgt0"
    by (cases tgt0) (simp_all add: tgt assms(7) lang_symbol_def)
  from d(3) whole d(2) base s t eos show ?thesis
    by (simp add: assms(7) lang_symbol_def)
qed

theorem load_dataset_injects_language_ids_witness:
  "load_dataset example_store example_permutation example_task ''train'' 1 False
     = Some (Inr example_loaded)
   \<and> ''zh_CN'' \<in> set (task_langs_for_summ example_task)
   \<and> task_datasets example_loaded ''train_zh_CN'' = Some (LanguagePairDataset example_zh)
   \<and> items removeAll (lp_src example_zh) = [[12, 13, 2, 8]]
   \<and> map_option (items removeAll) (lp_tgt example_zh) = Some [[14, 2, 8]]
   \<and> lp_eos example_zh = Some 8"
  using load_dataset_injects_language_ids
    [OF example_run refl refl _ refl refl refl, of "''zh_CN''" removeAll]
  by (simp add: example_run example_loaded_simps example_task_simps example_zh_def)

text \<open>
  Claim C2. \<^verbatim>\<open>load_dataset\<close> builds one dataset per entry of
  \<^verbatim>\<open>langs_for_summ\<close>, in list order, each by \<^verbatim>\<open>load_langpair_sumdataset\<close> on the
  subdirectory of the data path named by the characters of the language code before its
  first underscore, and registers under \<open>split\<close> the concatenation of these datasets;
  the concatenation has as many examples as the per-language datasets together.
\<close>

theorem load_dataset_concatenates_languages:
  assumes "load_dataset fs permutation self split epoch combine = Some (Inr self')"
    and "paths = str_split (args_data (task_args self)) (CHR '':'')"
    and "data_path = paths ! nat ((epoch - 1) mod int (length paths))"
  shows "\<exists>lang_datasets.
      task_datasets self' split = Some (ConcatDatasets lang_datasets)
    \<and> list_all2
        (\<lambda>lang d.
           load_langpair_sumdataset fs
             (os_path_join data_path (takeWhile (\<lambda>c. c \<noteq> CHR ''_'') lang)) split
             (args_source_lang (task_args self)) (task_src_dict self)
             (if args_fix2x (task_args self) \<noteq> [] then args_fix2x (task_args self) else lang)
             (args_target_lang (task_args self)) (task_tgt_dict self) lang
             combine (args_dataset_impl (task_args self))
             (args_upsample_primary (task_args self))
             (args_left_pad_source (task_args self))
             (args_left_pad_target (task_args self))
             (getattr (args_max_source_positions (task_args self)) 1024)
             (getattr (args_max_target_positions (task_args self)) 1024)
             (getattr (args_preprend_bos (task_args self)) False)
             (args_load_alignments (task_args self))
             (args_truncate_source (task_args self))
             True
             (getattr (args_trg_prepend (task_args self)) False) = Some (Inr d))
        (task_langs_for_summ self) lang_datasets
    \<and> length lang_datasets = length (task_langs_for_summ self)
    \<and> num_examples (ConcatDatasets lang_datasets) =
        sum_list (map (\<lambda>d. num_examples (LanguagePairDataset d)) lang_datasets)"
proof -
  from load_dataset_languages [OF assms] obtain lds where
    whole: "task_datasets self' split = Some (ConcatDatasets lds)"
    and all2: "list_all2 (\<lambda>lang d. load_lang_dataset fs self data_path split
                     (args_source_lang (task_args self)) (args_target_lang (task_args self))
                     combine lang = Some (Inr d)) (task_langs_for_summ self) lds"
    by blast
  have "length lds = length (task_langs_for_summ self)"
    using all2 by (simp add: list_all2_lengthD)
  with whole all2 show ?thesis
    unfolding load_lang_dataset_unfold by (intro exI [of _ lds]) simp
qed

theorem load_dataset_concatenates_languages_witness:
  "load_dataset example_store example_permutation example_task ''train'' 1 False
     = Some (Inr example_loaded)
   \<and> task_datasets example_loaded ''train'' = Some (ConcatDatasets [example_en, example_zh])
   \<and> load_langpair_sumdataset example_store ''data/en'' ''train'' ''doc'' example_dict ''en_XX''
       ''sum'' example_dict ''en_XX'' False None 1 True False 1024 1024 False False False True
       False = Some (Inr example_en)
   \<and> load_langpair_sumdataset example_store ''data/zh'' ''train'' ''doc'' example_dict ''zh_CN''
       ''sum'' example_dict ''zh_CN'' False None 1 True False 1024 1024 False False False True
       False = Some (Inr example_zh)
   \<and> num_examples (ConcatDatasets [example_en, example_zh]) = 3"
  using load_dataset_concatenates_languages [OF example_run refl refl]
  by (simp add: example_run example_loaded_simps example_langpairs example_en_def example_zh_def)

text \<open>
  Claim C3 does not hold of the code: after the sorted view of line 248 has been stored
  under \<open>split\<close>, line 256 stores the plain concatenation under the same key. On the
  small corpus the call returns, and the dataset registered under \<open>train\<close> is the
  concatenation of the two per-language datasets, not the \<^verbatim>\<open>SortDataset\<close> over it
  with the seeded permutation and the sizes as sort order.
\<close>

theorem load_dataset_registers_unsorted_concatenation:
  "load_dataset example_store example_permutation example_task ''train'' 1 False
     = Some (Inr example_loaded)
   \<and> task_datasets example_loaded ''train'' = Some (ConcatDatasets [example_en, example_zh])
   \<and> task_datasets example_loaded ''train'' \<noteq>
       Some (SortDataset (ConcatDatasets [example_en, example_zh])
               [Values (example_permutation (args_seed (task_args example_task) + 1) 3),
                SizesOf (ConcatDatasets [example_en, example_zh])])"
  by (simp add: example_run example_loaded_simps)

text \<open>
  Claim C6. After \<^verbatim>\<open>load_dataset(split)\<close>, for every language \<open>lang\<close> of
  \<^verbatim>\<open>langs_for_summ\<close> the dataset built for it is registered under the key
  \<open>split_lang\<close>. If \<open>split\<close> occurs in \<^verbatim>\<open>args.valid_subset\<close>, its occurrences
  there are replaced (as \<^verbatim>\<open>str.replace\<close> does, from left to right) by the
  comma-joined list of \<open>split\<close> followed by the keys \<open>split_lang\<close> in the order of
  the languages; otherwise \<^verbatim>\<open>args.valid_subset\<close> is unchanged.
\<close>

theorem load_dataset_registers_languages_and_valid_subset:
  assumes "load_dataset fs permutation self split epoch combine = Some (Inr self')"
    and "paths = str_split (args_data (task_args self)) (CHR '':'')"
    and "data_path = paths ! nat ((epoch - 1) mod int (length paths))"
  shows "(\<forall>lang \<in> set (task_langs_for_summ self). \<exists>d.
            load_lang_dataset fs self data_path split (args_source_lang (task_args self))
              (args_target_lang (task_args self)) combine lang = Some (Inr d)
            \<and> task_datasets self' (split @ ''_'' @ lang) = Some (LanguagePairDataset d))
       \<and> args_valid_subset (task_args self') =
           (if str_contains (args_valid_subset (task_args self)) split
            then str_replace (args_valid_subset (task_args self)) split
                   (str_join '',''
                      (split # map (\<lambda>lang. split @ ''_'' @ lang) (task_langs_for_summ self)))
            else args_valid_subset (task_args self))"
  using load_dataset_languages [OF assms] by blast

theorem load_dataset_registers_languages_and_valid_subset_witness:
  "load_dataset example_store example_permutation example_task ''train'' 1 False
     = Some (Inr example_loaded)
   \<and> task_datasets example_loaded ''train_en_XX'' = Some (LanguagePairDataset example_en)
   \<and> task_datasets example_loaded ''train_zh_CN'' = Some (LanguagePairDataset example_zh)
   \<and> args_valid_subset (task_args example_task) = ''valid,train''
   \<and> args_valid_subset (task_args example_loaded) = ''valid,train,train_en_XX,train_zh_CN''"
  using load_dataset_registers_languages_and_valid_subset
    [OF example_run refl refl]
  by (simp add: example_run example_loaded_simps example_task_simps)

text \<open>
  Claim C10. \<^verbatim>\<open>load_dataset\<close> reads the flag from the attribute
  \<^verbatim>\<open>preprend_bos\<close>. So for a namespace that defines \<^verbatim>\<open>prepend_bos\<close> (with any
  value \<open>b\<close>) and not \<^verbatim>\<open>preprend_bos\<close>, the dataset of every language is the one
  that \<^verbatim>\<open>load_langpair_sumdataset\<close> builds with \<^verbatim>\<open>prepend_bos=False\<close>: no
  wrapper of its source side prepends a token, and on its target side the only token
  prepended is the language id, when \<^verbatim>\<open>trg_prepend\<close> is set. No beginning-of-sentence
  token is prepended.
\<close>

theorem load_dataset_never_prepends_bos:
  assumes "load_dataset fs permutation self split epoch combine = Some (Inr self')"
    and "paths = str_split (args_data (task_args self)) (CHR '':'')"
    and "data_path = paths ! nat ((epoch - 1) mod int (length paths))"
    and "args_prepend_bos (task_args self) = Some b"
    and "args_preprend_bos (task_args self) = None"
    and "lang \<in> set (task_langs_for_summ self)"
  shows "\<exists>d.
      task_datasets self' (split @ ''_'' @ lang) = Some (LanguagePairDataset d)
    \<and> load_langpair_sumdataset fs
         (os_path_join data_path (takeWhile (\<lambda>c. c \<noteq> CHR ''_'') lang)) split
         (args_source_lang (task_args self)) (task_src_dict self)
         (if args_fix2x (task_args self) \<noteq> [] then args_fix2x (task_args self) else lang)
         (args_target_lang (task_args self)) (task_tgt_dict self) lang
         combine (args_dataset_impl (task_args self))
         (args_upsample_primary (task_args self))
         (args_left_pad_source (task_args self))
         (args_left_pad_target (task_args self))
         (getattr (args_max_source_positions (task_args self)) 1024)
         (getattr (args_max_target_positions (task_args self)) 1024)
         False
         (args_load_alignments (task_args self))
         (args_truncate_source (task_args self))
         True
         (getattr (args_trg_prepend (task_args self)) False) = Some (Inr d)
    \<and> prepended_tokens (lp_src d) = []
    \<and> map_option prepended_tokens (lp_tgt d) =
        map_option
          (\<lambda>t. if getattr (args_trg_prepend (task_args self)) False
                then [dict_index (task_tgt_dict self) (''['' @ lang @ '']'')] else [])
          (lp_tgt d)"
proof -
  from load_dataset_languages [OF assms(1-3)] assms(6) obtain d where
    d: "load_lang_dataset fs self data_path split (args_source_lang (task_args self))
              (args_target_lang (task_args self)) combine lang = Some (Inr d)"
       "task_datasets self' (split @ ''_'' @ lang) = Some (LanguagePairDataset d)"
    by blast
  have call: "load_langpair_sumdataset fs
         (os_path_join data_path (takeWhile (\<lambda>c. c \<noteq> CHR ''_'') lang)) split
         (args_source_lang (task_args self)) (task_src_dict self)
         (if args_fix2x (task_args self) \<noteq> [] then args_fix2x (task_args self) else lang)
         (args_target_lang (task_args self)) (task_tgt_dict self) lang
         combine (args_dataset_impl (task_args self))
         (args_upsample_primary (task_args self))
         (args_left_pad_source (task_args self))
         (args_left_pad_target (task_args self))
         (getattr (args_max_source_positions (task_args self)) 1024)
         (getattr (args_max_target_positions (task_args self)) 1024)
         False
         (args_load_alignments (task_args self))
         (args_truncate_source (task_args self))
         True
         (getattr (args_trg_prepend (task_args self)) False) = Some (Inr d)"
    using d(1) by (simp add: load_lang_dataset_unfold assms(5) getattr_def)
  from load_langpair_sumdataset_append [OF call] obtain src0 tgt0 where
    base: "load_base_datasets fs
         (os_path_join data_path (takeWhile (\<lambda>c. c \<noteq> CHR ''_'') lang)) split
         (args_source_lang (task_args self)) (task_src_dict self)
         (args_target_lang (task_args self)) (task_tgt_dict self)
         combine (args_dataset_impl (task_args self)) (args_upsample_primary (task_args self))
         (getattr (args_max_source_positions (task_args self)) 1024)
         False (args_truncate_source (task_args self)) True = Some (Inr (src0, tgt0))"
    and src: "lp_src d = AppendTokenDataset src0 (dict_index (task_src_dict self)
                (lang_symbol (if args_fix2x (task_args self) \<noteq> []
                              then args_fix2x (task_args self) else lang)))"
    and tgt: "lp_tgt d = map_option
         (\<lambda>t. AppendTokenDataset
                (if getattr (args_trg_prepend (task_args self)) False
                 then PrependTokenDataset t (dict_index (task_tgt_dict self) (lang_symbol lang))
                 else t)
                (dict_index (task_tgt_dict self) (lang_symbol lang))) tgt0"
    by blast
  note none = load_base_datasets_no_prepend [OF base]
  have s: "prepended_tokens (lp_src d) = []"
    using none by (simp add: src)
  have t: "map_option prepended_tokens (lp_tgt d) =
        map_option
          (\<lambda>t. if getattr (args_trg_prepend (task_args self)) False
                then [dict_index (task_tgt_dict self) (''['' @ lang @ '']'')] else [])
          (lp_tgt d)"
    using none by (cases tgt0) (simp_all add: tgt lang_symbol_def)
  from d(2) call s t show ?thesis by blast
qed

theorem load_dataset_never_prepends_bos_witness:
  "load_dataset example_store example_permutation example_task ''train'' 1 False
     = Some (Inr example_loaded)
   \<and> args_prepend_bos (task_args example_task) = Some True
   \<and> args_preprend_bos (task_args example_task) = None
   \<and> ''en_XX'' \<in> set (task_langs_for_summ example_task)
   \<and> task_datasets example_loaded ''train_en_XX'' = Some (LanguagePairDataset example_en)
   \<and> prepended_tokens (lp_src example_en) = []
   \<and> map_option prepended_tokens (lp_tgt example_en) = Some []
   \<and> items removeAll (lp_src example_en) = [[4, 5, 6, 2, 7], [8, 2, 7]]"
  using load_dataset_never_prepends_bos
    [OF example_run refl refl example_task_simps(10) example_task_simps(9), of "''en_XX''"]
  by (simp add: example_run example_loaded_simps example_task_simps example_en_def)


section \<open>Sampling probabilities in exact arithmetic\<close>

text \<open>
  Over the real numbers, for a non-empty vector of positive lengths, the exponent 1.0
  makes the smoothing step the identity, and \<open>get_sample_prob\<close> returns the lengths
  divided by their sum, which add up to 1. The Python function computes with floats,
  where the second normalisation divides by a sum that rounding can move away from 1.
\<close>

lemma sum_list_div_const: "sum_list (map (\<lambda>x. x / c) xs) = sum_list xs / (c::real)"
  by (induction xs) (simp_all add: add_divide_distrib)

lemma sum_list_pos_real: "xs \<noteq> [] \<Longrightarrow> \<forall>x\<in>set xs. 0 < x \<Longrightarrow> 0 < sum_list (xs::real list)"
  by (induction xs) (auto intro: add_pos_nonneg sum_list_nonneg less_imp_le)

lemma get_sample_prob_exact:
  assumes "dataset_lens \<noteq> []" and "\<forall>x\<in>set dataset_lens. 0 < x"
  shows "get_sample_prob dataset_lens = map (\<lambda>x. x / sum_list dataset_lens) dataset_lens
         \<and> sum_list (get_sample_prob dataset_lens) = 1"
proof -
  let ?S = "sum_list dataset_lens"
  let ?prob = "map (\<lambda>x. x / ?S) dataset_lens"
  have S: "0 < ?S" using assms by (rule sum_list_pos_real)
  have smooth: "map (\<lambda>p. p powr 1.0) ?prob = ?prob"
    using assms(2) S by (simp add: less_imp_le)
  have one: "sum_list ?prob = 1"
    using S by (simp add: sum_list_div_const)
  have "get_sample_prob dataset_lens = ?prob"
    unfolding get_sample_prob_def Let_def smooth one by simp
  with one show ?thesis by simp
qed

section \<open>Claims about inference\<close>

text \<open>
  Claim C5. For every list of source token sequences,
  \<^verbatim>\<open>build_dataset_for_inference\<close> returns a language-pair dataset whose source side
  holds, in the order of the inputs, each input sequence followed by exactly one more
  token, the index of \<^verbatim>\<open>'[doc_lang]'\<close> in the source dictionary; there are as many
  source sequences as inputs.
\<close>

theorem build_dataset_for_inference_appends_lang_id:
  "lp_src (build_dataset_for_inference self src_tokens src_lengths) =
     IndexedDataset (map (\<lambda>s_t. s_t @ [dict_index (task_src_dict self)
                       (''['' @ format_opt (args_doc_lang (task_args self)) @ '']'')]) src_tokens)
   \<and> length (items strip (lp_src (build_dataset_for_inference self src_tokens src_lengths))) =
       length src_tokens
   \<and> (\<forall>i < length src_tokens.
        items strip (lp_src (build_dataset_for_inference self src_tokens src_lengths)) ! i =
          src_tokens ! i @ [dict_index (task_src_dict self)
                              (''['' @ format_opt (args_doc_lang (task_args self)) @ '']'')])"
  by (simp add: build_dataset_for_inference_def fold_append_map lang_symbol_def)

theorem build_dataset_for_inference_appends_lang_id_witness:
  "lp_src (build_dataset_for_inference example_task [[4, 5, 2], [6, 2]] [3, 2]) =
     IndexedDataset [[4, 5, 2, 7], [6, 2, 7]]
   \<and> items removeAll
         (lp_src (build_dataset_for_inference example_task [[4, 5, 2], [6, 2]] [3, 2])) ! 1
       = [6, 2, 7]"
  using build_dataset_for_inference_appends_lang_id
    [of example_task "[[4, 5, 2], [6, 2]]" "[3, 2]" removeAll]
  by (simp add: example_task_def init_def example_args_def example_dict_simps format_opt_def)

end
